theory Spec2Isabelle
  imports Main "HOL-Library.Sublist"
begin

section \<open>Python string and list operations used by the agent\<close>

text \<open>
  The agent of \<^verbatim>\<open>src/browserpilot/agents/gpt_selenium_agent.py\<close> works on Python
  strings with \<^verbatim>\<open>in\<close>, \<^verbatim>\<open>replace\<close>, \<^verbatim>\<open>split\<close>, \<^verbatim>\<open>join\<close>,
  \<^verbatim>\<open>endswith\<close>, \<^verbatim>\<open>int\<close> and list indexing. Strings are modelled as
  \<^typ>\<open>string\<close> (lists of 8-bit characters); the operations below are the Python
  ones on ASCII text.
\<close>

datatype exn = AssertionError | IndexError | ValueError | ExecError string

text \<open>\<^verbatim>\<open>sub in s\<close>: some suffix of \<open>s\<close> starts with \<open>sub\<close>.\<close>

fun str_contains :: "string \<Rightarrow> string \<Rightarrow> bool" where
  "str_contains sub [] = (sub = [])"
| "str_contains sub (c # cs) = (prefix sub (c # cs) \<or> str_contains sub cs)"

text \<open>
  \<^verbatim>\<open>s.replace(old, new)\<close>: the occurrences of \<open>old\<close> are found from left to right and
  do not overlap. For an empty \<open>old\<close> Python puts \<open>new\<close> before every character and
  at the end.
\<close>

fun py_replace :: "string \<Rightarrow> string \<Rightarrow> string \<Rightarrow> string" where
  "py_replace old new [] = (if old = [] then new else [])"
| "py_replace old new (c # cs) =
     (if old = [] then new @ c # py_replace old new cs
      else if prefix old (c # cs) then new @ py_replace old new (drop (length old) (c # cs))
      else c # py_replace old new cs)"

text \<open>
  \<^verbatim>\<open>s.split(sep)\<close> for a separator that is not empty (the agent only splits at the
  constants \<^verbatim>\<open>"\n"\<close>, \<^verbatim>\<open>"line "\<close> and \<^verbatim>\<open>","\<close>; Python raises ValueError on an
  empty one). The result always has at least one piece.
\<close>

fun py_split :: "string \<Rightarrow> string \<Rightarrow> string list" where
  "py_split sep [] = [[]]"
| "py_split sep (c # cs) =
     (if sep \<noteq> [] \<and> prefix sep (c # cs) then [] # py_split sep (drop (length sep) (c # cs))
      else (case py_split sep cs of [] \<Rightarrow> [[c]] | p # ps \<Rightarrow> (c # p) # ps))"

text \<open>\<^verbatim>\<open>sep.join(xs)\<close>.\<close>

fun py_join :: "string \<Rightarrow> string list \<Rightarrow> string" where
  "py_join sep [] = []"
| "py_join sep [x] = x"
| "py_join sep (x # y # ys) = x @ sep @ py_join sep (y # ys)"

text \<open>
  \<^verbatim>\<open>xs[i]\<close>: a negative index counts from the end, an index outside the list raises
  IndexError.
\<close>

definition py_index :: "'a list \<Rightarrow> int \<Rightarrow> exn + 'a" where
  "py_index xs i =
     (if 0 \<le> i \<and> i < int (length xs) then Inr (xs ! nat i)
      else if i < 0 \<and> 0 \<le> int (length xs) + i then Inr (xs ! nat (int (length xs) + i))
      else Inl IndexError)"

text \<open>\<^verbatim>\<open>xs[3:5]\<close>: slicing never raises.\<close>

definition slice_3_5 :: "'a list \<Rightarrow> 'a list" where
  "slice_3_5 xs = take 2 (drop 3 xs)"

text \<open>
  \<^verbatim>\<open>int(s)\<close> in base 10: white space around the literal is dropped, one sign is
  allowed, and the digits may be grouped by single underscores. Anything else raises
  ValueError (here \<open>None\<close>). Only ASCII digits and ASCII white space are modelled.
\<close>

definition is_space :: "char \<Rightarrow> bool" where
  "is_space c = (c \<in> set [CHR '' '', CHR 0x09, CHR 0x0A, CHR 0x0B, CHR 0x0C, CHR 0x0D,
                           CHR 0x1C, CHR 0x1D, CHR 0x1E, CHR 0x1F])"

definition py_strip :: "string \<Rightarrow> string" where
  "py_strip s = rev (dropWhile is_space (rev (dropWhile is_space s)))"

definition is_digit :: "char \<Rightarrow> bool" where
  "is_digit c = (c \<in> set ''0123456789'')"

definition digit_val :: "char \<Rightarrow> nat" where
  "digit_val c = of_char c - 48"

fun digits_ok :: "string \<Rightarrow> bool" where
  "digits_ok [] = False"
| "digits_ok (c # cs) =
     (is_digit c \<and>
      (case cs of [] \<Rightarrow> True
       | d # ds \<Rightarrow> if d = CHR ''_'' then digits_ok ds else digits_ok cs))"

definition digits_value :: "string \<Rightarrow> nat" where
  "digits_value body = foldl (\<lambda>acc c. 10 * acc + digit_val c) 0 (filter (\<lambda>c. c \<noteq> CHR ''_'') body)"

definition py_int :: "string \<Rightarrow> int option" where
  "py_int s =
     (let t = py_strip s;
          neg = (case t of [] \<Rightarrow> False | c # r \<Rightarrow> c = CHR ''-'');
          body = (case t of [] \<Rightarrow> [] | c # r \<Rightarrow> if c = CHR ''-'' \<or> c = CHR ''+'' then r else t)
      in if digits_ok body
         then Some (if neg then - int (digits_value body) else int (digits_value body))
         else None)"

section \<open>The Safety Gate\<close>

text \<open>
  \<^verbatim>\<open>_is_potentially_dangerous\<close> (lines 73-91): the text is dangerous when it contains
  \<^verbatim>\<open>"import "\<close> or one of the three blacklisted library names; the \<^verbatim>\<open>for\<close> loop
  returns at the first library found.
\<close>

definition blacklisted_libraries :: "string list" where
  "blacklisted_libraries = [''shutil'', ''requests'', ''urllib'']"

fun any_library_in :: "string list \<Rightarrow> string \<Rightarrow> bool" where
  "any_library_in [] code_str = False"
| "any_library_in (library # libraries) code_str =
     (if str_contains library code_str then True else any_library_in libraries code_str)"

definition is_potentially_dangerous :: "string \<Rightarrow> bool" where
  "is_potentially_dangerous code_str =
     (if str_contains ''import '' code_str then True
      else if any_library_in blacklisted_libraries code_str then True
      else False)"

text \<open>
  How a call of \<^verbatim>\<open>run()\<close> ends: it returns, or \<^verbatim>\<open>sys.exit\<close> leaves the process with
  a status, or an exception reaches the caller.
\<close>

datatype outcome = Finished | SysExit int | Propagated exn

text \<open>
  \<^verbatim>\<open>_check_danger\<close> (lines 66-71): \<^verbatim>\<open>sys.exit(1)\<close> on a dangerous action, otherwise
  the caller goes on (\<open>None\<close>). The two log lines are not modelled.
\<close>

definition check_danger :: "string \<Rightarrow> outcome option" where
  "check_danger action_str =
     (if is_potentially_dangerous action_str then Some (SysExit 1) else None)"

text \<open>
  The spec speaks of an action text that "contains a module-import statement". This is
  that notion in the spec's words, for the simplest form of Python's import statement:
  a line made of the keyword \<^verbatim>\<open>import\<close>, at least one blank (space or tab) and a
  dotted module name. It is compared with the gate, it is not part of the agent.
\<close>

definition is_blank :: "char \<Rightarrow> bool" where
  "is_blank c = (c = CHR '' '' \<or> c = CHR 0x09)"

definition is_name_char :: "char \<Rightarrow> bool" where
  "is_name_char c =
     (c \<in> set ''abcdefghijklmnopqrstuvwxyzABCDEFGHIJKLMNOPQRSTUVWXYZ0123456789_.'')"

definition spec_import_statement :: "string \<Rightarrow> bool" where
  "spec_import_statement l =
     (prefix ''import'' l \<and>
      takeWhile is_blank (drop 6 l) \<noteq> [] \<and>
      dropWhile is_blank (drop 6 l) \<noteq> [] \<and>
      list_all is_name_char (dropWhile is_blank (drop 6 l)))"

definition spec_contains_import_statement :: "string \<Rightarrow> bool" where
  "spec_contains_import_statement code_str =
     list_ex spec_import_statement (py_split ''\<newline>'' code_str)"

section \<open>The world outside the agent\<close>

text \<open>
  What the agent does to its collaborators is recorded as a list of calls, oldest
  first. \<open>StepCall i a\<close>: \<^verbatim>\<open>instruction_compiler.step()\<close> returned instruction \<open>i\<close>
  with action output \<open>a\<close>; \<open>ExecCall code ok\<close>: \<^verbatim>\<open>exec(code, ...)\<close> ran and returned
  (\<open>ok\<close>) or raised; \<open>RetryCall fb a\<close>: \<^verbatim>\<open>instruction_compiler.retry(fb)\<close> returned
  action output \<open>a\<close>; \<open>PdbCall\<close>: \<^verbatim>\<open>pdb.set_trace()\<close>; \<open>SaveCall f\<close>:
  \<^verbatim>\<open>save_compiled_instructions(f)\<close>; \<open>QuitCall\<close>: \<^verbatim>\<open>env.driver.quit()\<close>;
  \<open>OpenCall\<close>: \<^verbatim>\<open>webdriver.Chrome(...)\<close>.
\<close>

datatype event =
    StepCall string string
  | ExecCall string bool
  | RetryCall string string
  | PdbCall
  | SaveCall string
  | QuitCall
  | OpenCall

datatype exec_result = Returned | Raised string

record instruction_compiler =
  instructions_queue :: "string list"
  use_compiled :: bool
  compiled_instructions :: "string list"

text \<open>
  The language model, the Python interpreter running a generated action against the
  browser, and the compiler's constructor are outside the agent. Each may depend on
  everything that happened before, so each takes the list of calls made so far.
  \<open>py_exec\<close> returns \<open>Raised tb\<close> when \<^verbatim>\<open>exec\<close> raises, \<open>tb\<close> being the text
  \<^verbatim>\<open>traceback.format_exc()\<close> gives for that exception.
\<close>

record world =
  llm_step :: "event list \<Rightarrow> string \<Rightarrow> string"
  llm_retry :: "event list \<Rightarrow> string \<Rightarrow> string"
  py_exec :: "event list \<Rightarrow> string \<Rightarrow> exec_result"
  new_compiler :: "string \<Rightarrow> instruction_compiler"

text \<open>
  Modelled from the spec: \<^verbatim>\<open>InstructionCompiler.step\<close> is not under src/. By the
  spec's interface (section 6) it "dequeues the next Instruction, returns it with its
  freshly generated Action". On an empty queue there is nothing to return (\<open>None\<close>);
  the agent never calls it there.
\<close>

definition compiler_step ::
  "world \<Rightarrow> event list \<Rightarrow> instruction_compiler \<Rightarrow> ((string \<times> string) \<times> instruction_compiler) option"
where
  "compiler_step w tr c =
     (case instructions_queue c of
        [] \<Rightarrow> None
      | i # q \<Rightarrow> Some ((i, llm_step w tr i), c\<lparr>instructions_queue := q\<rparr>))"

text \<open>
  Modelled from the spec: \<^verbatim>\<open>InstructionCompiler.retry\<close> is not under src/. By the
  spec's interface it "regenerates an Action for the current (not-yet-dequeued-next)
  Instruction, given failure feedback": it returns a new action output and leaves the
  queue as it is.
\<close>

definition compiler_retry ::
  "world \<Rightarrow> event list \<Rightarrow> instruction_compiler \<Rightarrow> string \<Rightarrow> string \<times> instruction_compiler"
where
  "compiler_retry w tr c feedback = (llm_retry w tr feedback, c)"

section \<open>The agent\<close>

record agent =
  instruction_output_file :: "string option"
  debug :: bool
  headless :: bool
  the_compiler :: instruction_compiler

text \<open>
  \<^verbatim>\<open>__init__\<close> (lines 33-62): the assertion on the output file comes first, then the
  Chrome session is opened, then the compiler is made from the instructions. The
  result is the exception or the agent, with the calls made until then.
\<close>

definition agent_init ::
  "world \<Rightarrow> string \<Rightarrow> bool \<Rightarrow> bool \<Rightarrow> string option \<Rightarrow> (exn + agent) \<times> event list"
where
  "agent_init w instructions headless_arg debug_arg output_file =
     (if \<not> (case output_file of None \<Rightarrow> True | Some f \<Rightarrow> suffix ''.yaml'' f)
      then (Inl AssertionError, [])
      else (Inr \<lparr>instruction_output_file = output_file, debug = debug_arg,
                  headless = headless_arg, the_compiler = new_compiler w instructions\<rparr>,
            [OpenCall]))"

text \<open>
  \<^verbatim>\<open>__run_compiled_instructions\<close> (lines 135-140): gate, one \<^verbatim>\<open>exec\<close> outside any
  \<^verbatim>\<open>try\<close>, then \<^verbatim>\<open>env.driver.quit()\<close>.
\<close>

definition run_compiled_instructions ::
  "world \<Rightarrow> string \<Rightarrow> event list \<Rightarrow> outcome \<times> event list"
where
  "run_compiled_instructions w instructions tr =
     (case check_danger instructions of
        Some out \<Rightarrow> (out, tr)
      | None \<Rightarrow>
          (case py_exec w tr instructions of
             Raised tb \<Rightarrow> (Propagated (ExecError tb), tr @ [ExecCall instructions False])
           | Returned \<Rightarrow> (Finished, tr @ [ExecCall instructions True, QuitCall])))"

text \<open>
  \<^verbatim>\<open>__get_relevant_part_of_stack_trace\<close> (lines 148-159), on the text \<open>tb\<close> of
  \<^verbatim>\<open>traceback.format_exc()\<close>. \<^verbatim>\<open>split("line ")[1]\<close> raises IndexError when the two
  kept lines have no \<^verbatim>\<open>"line "\<close>, and \<^verbatim>\<open>int\<close> raises ValueError on what is not a
  number.
\<close>

record diagnostic =
  stack_trace :: string
  line_num :: int

definition class_name :: string where
  "class_name = ''GPTSeleniumAgent''"

definition get_relevant_part_of_stack_trace :: "string \<Rightarrow> exn + diagnostic" where
  "get_relevant_part_of_stack_trace tb =
     (let st = py_replace class_name ''env''
                 (py_join ''\<newline>'' (slice_3_5 (py_split ''\<newline>'' tb)))
      in case py_index (py_split ''line '' st) 1 of
           Inl e \<Rightarrow> Inl e
         | Inr after_line \<Rightarrow>
             (case py_index (py_split '','' after_line) 0 of
                Inl e \<Rightarrow> Inl e
              | Inr num \<Rightarrow>
                  (case py_int num of
                     None \<Rightarrow> Inl ValueError
                   | Some n \<Rightarrow> Inr \<lparr>stack_trace = st, line_num = n\<rparr>)))"

text \<open>
  The first half of the \<^verbatim>\<open>except\<close> branch (lines 185-190 and the argument of
  \<^verbatim>\<open>retry\<close> in line 197): the line of the action, with double newlines replaced by
  single ones, that the trace points at, and the feedback text made of it. An exception
  raised here is raised inside the handler and so leaves \<^verbatim>\<open>run()\<close>.
\<close>

definition problem_instruction_of :: "string \<Rightarrow> int \<Rightarrow> exn + string" where
  "problem_instruction_of action n =
     (case py_index (py_split ''\<newline>'' (py_replace ''\<newline>\<newline>'' ''\<newline>'' action)) (n - 1) of
        Inl e \<Rightarrow> Inl e
      | Inr line \<Rightarrow> Inr (''\<newline>Failed on line: '' @ line @ ''\<newline>''))"

definition retry_feedback :: "string \<Rightarrow> string \<Rightarrow> exn + string" where
  "retry_feedback action tb =
     (case get_relevant_part_of_stack_trace tb of
        Inl e \<Rightarrow> Inl e
      | Inr d \<Rightarrow>
          (case problem_instruction_of action (line_num d) of
             Inl e \<Rightarrow> Inl e
           | Inr problem_instruction \<Rightarrow> Inr (problem_instruction @ stack_trace d)))"

text \<open>
  The inner loop of \<^verbatim>\<open>__step_through_instructions\<close> (lines 178-201),
  \<^verbatim>\<open>while attempts < 3\<close>. The result \<open>None\<close> says that the loop was left normally
  (by \<^verbatim>\<open>break\<close> or because \<open>attempts\<close> reached 3), \<open>Some out\<close> that \<^verbatim>\<open>run()\<close> ends
  here. The bare \<^verbatim>\<open>except:\<close> catches whatever \<^verbatim>\<open>exec\<close> raises. The action that
  \<^verbatim>\<open>retry\<close> returns is stripped of code fences and not passed to
  \<^verbatim>\<open>_check_danger\<close>.
\<close>

function attempt_loop ::
  "world \<Rightarrow> agent \<Rightarrow> instruction_compiler \<Rightarrow> nat \<Rightarrow> string \<Rightarrow> event list
     \<Rightarrow> outcome option \<times> event list"
where
  "attempt_loop w a c attempts action tr =
     (if attempts < 3 then
        (case py_exec w tr action of
           Returned \<Rightarrow> (None, tr @ [ExecCall action True])
         | Raised tb \<Rightarrow>
             (case retry_feedback action tb of
                Inl e \<Rightarrow> (Some (Propagated e), tr @ [ExecCall action False])
              | Inr feedback \<Rightarrow>
                  (let tr1 = tr @ [ExecCall action False] @ (if debug a then [PdbCall] else []);
                       step = fst (compiler_retry w tr1 c feedback)
                   in attempt_loop w a c (attempts + 1) (py_replace ''```'' '''' step)
                        (tr1 @ [RetryCall feedback step]))))
      else (None, tr))"
  by pat_completeness auto
termination
  by (relation "measure (\<lambda>(w, a, c, attempts, action, tr). 3 - attempts)") auto

declare attempt_loop.simps [simp del]

text \<open>
  \<^verbatim>\<open>__step_through_instructions\<close> (lines 161-208): the outer loop runs while the
  compiler's queue is not empty; after it the compiled instructions are saved when an
  output file is set (a string that is not empty), and the driver quits.
\<close>

function step_through_instructions ::
  "world \<Rightarrow> agent \<Rightarrow> instruction_compiler \<Rightarrow> event list \<Rightarrow> outcome \<times> event list"
where
  "step_through_instructions w a c tr =
     (if instructions_queue c \<noteq> [] then
        (case compiler_step w tr c of
           None \<Rightarrow> (Propagated IndexError, tr)
         | Some ((instruction, action_output), c') \<Rightarrow>
             (let tr1 = tr @ [StepCall instruction action_output];
                  action = py_replace ''```'' '''' action_output
              in case check_danger action of
                   Some out \<Rightarrow> (out, tr1)
                 | None \<Rightarrow>
                     (case attempt_loop w a c' 0 action tr1 of
                        (Some out, tr2) \<Rightarrow> (out, tr2)
                      | (None, tr2) \<Rightarrow> step_through_instructions w a c' tr2)))
      else
        (Finished,
         (case instruction_output_file a of
            None \<Rightarrow> tr
          | Some f \<Rightarrow> if f \<noteq> [] then tr @ [SaveCall f] else tr) @ [QuitCall]))"
  by pat_completeness auto
termination
  by (relation "measure (\<lambda>(w, a, c, tr). length (instructions_queue c))")
     (auto simp: compiler_step_def split: list.splits)

declare step_through_instructions.simps [simp del]

text \<open>\<^verbatim>\<open>run\<close> (lines 212-223). The calls of one \<^verbatim>\<open>run()\<close> start from the empty list.\<close>

definition compiled_unit :: "string list \<Rightarrow> string" where
  "compiled_unit compiled = py_replace ''```'' '''' (py_join ''\<newline>'' compiled)"

definition run :: "world \<Rightarrow> agent \<Rightarrow> outcome \<times> event list" where
  "run w a =
     (let should_use_compiled = use_compiled (the_compiler a);
          compiled = compiled_instructions (the_compiler a)
      in if should_use_compiled \<and> compiled \<noteq> []
         then run_compiled_instructions w (compiled_unit compiled) []
         else step_through_instructions w a (the_compiler a) [])"

section \<open>What is observed of a run\<close>

definition retry_count :: "event list \<Rightarrow> nat" where
  "retry_count tr = length (filter (\<lambda>e. case e of RetryCall fb s \<Rightarrow> True | _ \<Rightarrow> False) tr)"

definition exec_count :: "event list \<Rightarrow> nat" where
  "exec_count tr = length (filter (\<lambda>e. case e of ExecCall code ok \<Rightarrow> True | _ \<Rightarrow> False) tr)"

definition teardown_count :: "event list \<Rightarrow> nat" where
  "teardown_count tr = length (filter (\<lambda>e. e = QuitCall) tr)"

definition steps_of :: "event list \<Rightarrow> string list" where
  "steps_of tr = concat (map (\<lambda>e. case e of StepCall i s \<Rightarrow> [i] | _ \<Rightarrow> []) tr)"

definition saved_files :: "event list \<Rightarrow> string list" where
  "saved_files tr = concat (map (\<lambda>e. case e of SaveCall f \<Rightarrow> [f] | _ \<Rightarrow> []) tr)"

text \<open>
  The next \<open>k\<close> executions, starting with \<open>action\<close> after the calls \<open>tr\<close>, all
  raise, each with a trace from which the feedback for \<^verbatim>\<open>retry\<close> can be built. The
  result is the action that the \<open>k\<close>-th \<^verbatim>\<open>retry\<close> returned (code fences stripped) and
  the calls made until then.
\<close>

fun attempts_fail ::
  "world \<Rightarrow> agent \<Rightarrow> instruction_compiler \<Rightarrow> nat \<Rightarrow> string \<Rightarrow> event list
     \<Rightarrow> (string \<times> event list) option"
where
  "attempts_fail w a c 0 action tr = Some (action, tr)"
| "attempts_fail w a c (Suc k) action tr =
     (case py_exec w tr action of
        Returned \<Rightarrow> None
      | Raised tb \<Rightarrow>
          (case retry_feedback action tb of
             Inl e \<Rightarrow> None
           | Inr feedback \<Rightarrow>
               (let tr1 = tr @ [ExecCall action False] @ (if debug a then [PdbCall] else []);
                    step = fst (compiler_retry w tr1 c feedback)
                in attempts_fail w a c k (py_replace ''```'' '''' step)
                     (tr1 @ [RetryCall feedback step]))))"

text \<open>
  Every instruction of the queue \<open>q\<close>, taken in order after the calls \<open>tr\<close>, gets an
  action that passes the gate and whose first execution returns.
\<close>

fun all_first_try :: "world \<Rightarrow> event list \<Rightarrow> string list \<Rightarrow> bool" where
  "all_first_try w tr [] = True"
| "all_first_try w tr (i # q) =
     (\<not> is_potentially_dangerous (py_replace ''```'' '''' (llm_step w tr i)) \<and>
      py_exec w (tr @ [StepCall i (llm_step w tr i)])
        (py_replace ''```'' '''' (llm_step w tr i)) = Returned \<and>
      all_first_try w
        (tr @ [StepCall i (llm_step w tr i),
               ExecCall (py_replace ''```'' '''' (llm_step w tr i)) True]) q)"

section \<open>Example worlds and agents\<close>

text \<open>
  The text \<^verbatim>\<open>traceback.format_exc()\<close> returns in CPython when the text given to
  \<^verbatim>\<open>exec\<close> in line 182 raises an AttributeError on its line \<open>n\<close>: the header, the
  frame of the agent with its source line, the frame of the executed text (which has
  no source line), and the exception.
\<close>

definition example_traceback :: "string \<Rightarrow> string" where
  "example_traceback n =
     ''Traceback (most recent call last):\<newline>'' @
     ''  File '' @ [CHR 0x22] @ ''gpt_selenium_agent.py'' @ [CHR 0x22] @
       '', line 182, in __step_through_instructions\<newline>'' @
     ''    exec(action, globals(), ldict)\<newline>'' @
     ''  File '' @ [CHR 0x22] @ ''<string>'' @ [CHR 0x22] @ '', line '' @ n @ '', in <module>\<newline>'' @
     ''AttributeError: GPTSeleniumAgent object has no attribute clik\<newline>''"

text \<open>
  A compiler constructor for the examples: one instruction per line of the text, no
  cache.
\<close>

definition example_new_compiler :: "string \<Rightarrow> instruction_compiler" where
  "example_new_compiler instructions =
     \<lparr>instructions_queue = py_split ''\<newline>'' instructions, use_compiled = False,
      compiled_instructions = []\<rparr>"

text \<open>A world in which every action returns.\<close>

definition world_ok :: world where
  "world_ok =
     \<lparr>llm_step = (\<lambda>tr i. ''```env.'' @ i @ ''()```''),
      llm_retry = (\<lambda>tr fb. ''env.wait(1)''),
      py_exec = (\<lambda>tr code. Returned),
      new_compiler = example_new_compiler\<rparr>"

text \<open>A world in which every action but \<^verbatim>\<open>env.b()\<close> raises on its first line.\<close>

definition world_failing :: world where
  "world_failing =
     \<lparr>llm_step = (\<lambda>tr i. ''```env.'' @ i @ ''()```''),
      llm_retry = (\<lambda>tr fb. ''env.wait(1)''),
      py_exec = (\<lambda>tr code. if code = ''env.b()'' then Returned
                             else Raised (example_traceback ''1'')),
      new_compiler = example_new_compiler\<rparr>"

text \<open>A world in which the executions raise until \<^verbatim>\<open>retry\<close> was called twice.\<close>

definition world_third_time :: world where
  "world_third_time =
     \<lparr>llm_step = (\<lambda>tr i. ''```env.'' @ i @ ''()```''),
      llm_retry = (\<lambda>tr fb. ''env.wait(1)''),
      py_exec = (\<lambda>tr code. if retry_count tr < 2 then Raised (example_traceback ''1'')
                             else Returned),
      new_compiler = example_new_compiler\<rparr>"

text \<open>An agent that steps through the queue \<open>q\<close>, and one that has the cached plan \<open>p\<close>.\<close>

definition stepping_agent :: "string list \<Rightarrow> agent" where
  "stepping_agent q =
     \<lparr>instruction_output_file = Some ''out.yaml'', debug = False, headless = True,
      the_compiler = \<lparr>instructions_queue = q, use_compiled = False,
                       compiled_instructions = []\<rparr>\<rparr>"

definition cached_agent :: "string list \<Rightarrow> agent" where
  "cached_agent p =
     \<lparr>instruction_output_file = None, debug = False, headless = True,
      the_compiler = \<lparr>instructions_queue = [], use_compiled = True,
                       compiled_instructions = p\<rparr>\<rparr>"

text \<open>
  What the agent keeps of \<open>example_traceback n\<close> (its fourth and fifth line, the class
  name replaced), and the feedback it gives to \<^verbatim>\<open>retry\<close> when \<open>line\<close> is the line
  of the action the trace points at.
\<close>

definition example_excerpt :: "string \<Rightarrow> string" where
  "example_excerpt n =
     ''  File '' @ [CHR 0x22] @ ''<string>'' @ [CHR 0x22] @ '', line '' @ n @ '', in <module>\<newline>'' @
     ''AttributeError: env object has no attribute clik''"

definition example_feedback :: "string \<Rightarrow> string \<Rightarrow> string" where
  "example_feedback line n = ''\<newline>Failed on line: '' @ line @ ''\<newline>'' @ example_excerpt n"

text \<open>A world whose language model answers the instruction \<^verbatim>\<open>b\<close> with an import.\<close>

definition world_importing :: world where
  "world_importing =
     \<lparr>llm_step = (\<lambda>tr i. if i = ''b'' then ''```import os```'' else ''```env.'' @ i @ ''()```''),
      llm_retry = (\<lambda>tr fb. ''env.wait(1)''),
      py_exec = (\<lambda>tr code. Returned),
      new_compiler = example_new_compiler\<rparr>"

text \<open>
  The calls made for the instruction \<^verbatim>\<open>a\<close> in the two failing worlds, up to the
  second and up to the third call of \<^verbatim>\<open>retry\<close>.
\<close>

definition example_two_failures :: "event list" where
  "example_two_failures =
     [StepCall ''a'' ''```env.a()```'',
      ExecCall ''env.a()'' False,
      RetryCall (example_feedback ''env.a()'' ''1'') ''env.wait(1)'',
      ExecCall ''env.wait(1)'' False,
      RetryCall (example_feedback ''env.wait(1)'' ''1'') ''env.wait(1)'']"

definition example_three_failures :: "event list" where
  "example_three_failures =
     example_two_failures @
     [ExecCall ''env.wait(1)'' False,
      RetryCall (example_feedback ''env.wait(1)'' ''1'') ''env.wait(1)'']"

text \<open>
  The text \<^verbatim>\<open>traceback.format_exc()\<close> returns in CPython when the text given to
  \<^verbatim>\<open>exec\<close> does not parse: the frame of the executed text has no function name, and
  the offending source line follows it.
\<close>

definition example_syntax_traceback :: string where
  "example_syntax_traceback =
     ''Traceback (most recent call last):\<newline>'' @
     ''  File '' @ [CHR 0x22] @ ''gpt_selenium_agent.py'' @ [CHR 0x22] @
       '', line 182, in __step_through_instructions\<newline>'' @
     ''    exec(action, globals(), ldict)\<newline>'' @
     ''  File '' @ [CHR 0x22] @ ''<string>'' @ [CHR 0x22] @ '', line 1\<newline>'' @
     ''    env.click(\<newline>'' @
     ''             ^\<newline>'' @
     ''SyntaxError: unexpected EOF while parsing\<newline>''"

text \<open>A world in which no action parses.\<close>

definition world_syntax_error :: world where
  "world_syntax_error =
     \<lparr>llm_step = (\<lambda>tr i. ''env.click(''),
      llm_retry = (\<lambda>tr fb. ''env.click(''),
      py_exec = (\<lambda>tr code. Raised example_syntax_traceback),
      new_compiler = example_new_compiler\<rparr>"

text \<open>A world in which the first action raises and \<^verbatim>\<open>retry\<close> answers with an import.\<close>

definition world_retry_imports :: world where
  "world_retry_imports =
     \<lparr>llm_step = (\<lambda>tr i. ''env.'' @ i @ ''()''),
      llm_retry = (\<lambda>tr fb. ''```import os```''),
      py_exec = (\<lambda>tr code. if code = ''import os'' then Returned
                             else Raised (example_traceback ''1'')),
      new_compiler = example_new_compiler\<rparr>"

section \<open>Facts about the operations\<close>

lemma retry_count_simps [simp]:
  "retry_count [] = 0"
  "retry_count (xs @ ys) = retry_count xs + retry_count ys"
  "retry_count (RetryCall fb s # xs) = Suc (retry_count xs)"
  "retry_count (ExecCall code ok # xs) = retry_count xs"
  "retry_count (StepCall i s # xs) = retry_count xs"
  "retry_count (PdbCall # xs) = retry_count xs"
  "retry_count (SaveCall f # xs) = retry_count xs"
  "retry_count (QuitCall # xs) = retry_count xs"
  by (simp_all add: retry_count_def)

lemma exec_count_simps [simp]:
  "exec_count [] = 0"
  "exec_count (xs @ ys) = exec_count xs + exec_count ys"
  "exec_count (RetryCall fb s # xs) = exec_count xs"
  "exec_count (ExecCall code ok # xs) = Suc (exec_count xs)"
  "exec_count (StepCall i s # xs) = exec_count xs"
  "exec_count (PdbCall # xs) = exec_count xs"
  "exec_count (SaveCall f # xs) = exec_count xs"
  "exec_count (QuitCall # xs) = exec_count xs"
  by (simp_all add: exec_count_def)

lemma teardown_count_simps [simp]:
  "teardown_count [] = 0"
  "teardown_count (xs @ ys) = teardown_count xs + teardown_count ys"
  "teardown_count (RetryCall fb s # xs) = teardown_count xs"
  "teardown_count (ExecCall code ok # xs) = teardown_count xs"
  "teardown_count (StepCall i s # xs) = teardown_count xs"
  "teardown_count (PdbCall # xs) = teardown_count xs"
  "teardown_count (SaveCall f # xs) = teardown_count xs"
  "teardown_count (QuitCall # xs) = Suc (teardown_count xs)"
  by (simp_all add: teardown_count_def)

lemma steps_of_simps [simp]:
  "steps_of [] = []"
  "steps_of (xs @ ys) = steps_of xs @ steps_of ys"
  "steps_of (RetryCall fb s # xs) = steps_of xs"
  "steps_of (ExecCall code ok # xs) = steps_of xs"
  "steps_of (StepCall i s # xs) = i # steps_of xs"
  "steps_of (PdbCall # xs) = steps_of xs"
  "steps_of (SaveCall f # xs) = steps_of xs"
  "steps_of (QuitCall # xs) = steps_of xs"
  by (simp_all add: steps_of_def)

lemma saved_files_simps [simp]:
  "saved_files [] = []"
  "saved_files (xs @ ys) = saved_files xs @ saved_files ys"
  "saved_files (RetryCall fb s # xs) = saved_files xs"
  "saved_files (ExecCall code ok # xs) = saved_files xs"
  "saved_files (StepCall i s # xs) = saved_files xs"
  "saved_files (PdbCall # xs) = saved_files xs"
  "saved_files (SaveCall f # xs) = f # saved_files xs"
  "saved_files (QuitCall # xs) = saved_files xs"
  by (simp_all add: saved_files_def)

lemma str_contains_sublist: "str_contains sub s \<longleftrightarrow> sublist sub s"
  by (induction s) (simp_all add: sublist_Cons_right)

lemma py_replace_skip:
  "old \<noteq> [] \<Longrightarrow> \<not> prefix old (c # cs) \<Longrightarrow>
     py_replace old new (c # cs) = c # py_replace old new cs"
  by simp

lemma py_replace_hit:
  "old \<noteq> [] \<Longrightarrow> py_replace old new (old @ cs) = new @ py_replace old new cs"
  by (cases old) simp_all

lemma strip_fences_keeps:
  "CHR 0x60 \<notin> set x \<Longrightarrow> py_replace ''```'' '''' (x @ r) = x @ py_replace ''```'' '''' r"
  by (induction x) auto

lemma fence_prefix_split:
  assumes "prefix ''```'' (p @ c # r)" and "c \<noteq> CHR 0x60"
  shows "\<exists>p'. p = ''```'' @ p'"
proof -
  from assms obtain z where z: "p @ c # r = ''```'' @ z"
    by (auto simp: prefix_def)
  then show ?thesis
    using assms(2)
    by (cases p; cases "tl p"; cases "tl (tl p)") auto
qed

lemma strip_fences_before:
  "c \<noteq> CHR 0x60 \<Longrightarrow>
     \<exists>p'. py_replace ''```'' '''' (p @ c # r) = p' @ py_replace ''```'' '''' (c # r)"
proof (induction p rule: length_induct)
  case (1 p)
  show ?case
  proof (cases p)
    case Nil
    then show ?thesis by simp
  next
    case (Cons d p1)
    show ?thesis
    proof (cases "prefix ''```'' (p @ c # r)")
      case True
      from fence_prefix_split [OF True "1.prems"] obtain p2 where p2: "p = ''```'' @ p2" ..
      then have "length p2 < length p" by simp
      with "1.IH" "1.prems" obtain p' where
        p': "py_replace ''```'' '''' (p2 @ c # r) = p' @ py_replace ''```'' '''' (c # r)"
        by blast
      from p2 have "py_replace ''```'' '''' (p @ c # r) = py_replace ''```'' '''' (p2 @ c # r)"
        using py_replace_hit [of "''```''" "''''" "p2 @ c # r"] by simp
      with p' show ?thesis by metis
    next
      case False
      from Cons have "length p1 < length p" by simp
      with "1.IH" "1.prems" obtain p' where
        p': "py_replace ''```'' '''' (p1 @ c # r) = p' @ py_replace ''```'' '''' (c # r)"
        by blast
      from False Cons
      have "py_replace ''```'' '''' (p @ c # r) = d # py_replace ''```'' '''' (p1 @ c # r)"
        using py_replace_skip [of "''```''" d "p1 @ c # r" "''''"] by simp
      with p' show ?thesis by (metis append_Cons)
    qed
  qed
qed

lemma strip_fences_sublist:
  assumes "sublist x s" and "CHR 0x60 \<notin> set x"
  shows "sublist x (py_replace ''```'' '''' s)"
proof (cases x)
  case Nil
  then show ?thesis by simp
next
  case (Cons c x1)
  from assms(1) obtain ps ss where s: "s = ps @ x @ ss"
    by (auto simp: sublist_def)
  from Cons assms(2) have c: "c \<noteq> CHR 0x60" by auto
  from strip_fences_before [OF c, of ps "x1 @ ss"] obtain p' where
    "py_replace ''```'' '''' (ps @ c # x1 @ ss) = p' @ py_replace ''```'' '''' (c # x1 @ ss)" ..
  with s Cons have "py_replace ''```'' '''' s = p' @ py_replace ''```'' '''' (x @ ss)"
    by simp
  also have "\<dots> = p' @ x @ py_replace ''```'' '''' ss"
    by (simp only: strip_fences_keeps [OF assms(2)])
  finally show ?thesis
    by (auto simp: sublist_def)
qed

lemma gate_iff_sublist:
  "is_potentially_dangerous code_str \<longleftrightarrow>
     (\<exists>x \<in> {''import '', ''shutil'', ''requests'', ''urllib''}. sublist x code_str)"
  by (simp add: is_potentially_dangerous_def blacklisted_libraries_def str_contains_sublist)

lemma py_split_not_Nil: "py_split sep s \<noteq> []"
  by (induction sep s rule: py_split.induct) (auto split: list.splits)

lemma py_split_hit:
  "sep \<noteq> [] \<Longrightarrow> py_split sep (sep @ r) = [] # py_split sep r"
  by (cases sep) simp_all

lemma py_split_first:
  "sep \<noteq> [] \<Longrightarrow> py_split sep s = p # q # qs \<Longrightarrow>
     \<exists>r. s = p @ sep @ r \<and> py_split sep r = q # qs \<and>
         (\<forall>k<length p. \<not> prefix sep (drop k s))"
proof (induction s arbitrary: p)
  case Nil
  then show ?case by simp
next
  case (Cons c cs)
  show ?case
  proof (cases "prefix sep (c # cs)")
    case True
    then obtain r where r: "c # cs = sep @ r"
      by (auto simp: prefix_def)
    with Cons.prems py_split_hit [OF Cons.prems(1), of r]
    have "p = []" "py_split sep r = q # qs"
      by simp_all
    with r show ?thesis by simp
  next
    case False
    with Cons.prems obtain p1 where p1: "p = c # p1" "py_split sep cs = p1 # q # qs"
      by (auto split: list.splits)
    from Cons.IH [OF Cons.prems(1) p1(2)] obtain r where r:
      "cs = p1 @ sep @ r" "py_split sep r = q # qs" "\<forall>k<length p1. \<not> prefix sep (drop k cs)"
      by blast
    have "\<not> prefix sep (drop k (c # cs))" if "k < length p" for k
      using that False r(3) p1(1) by (cases k) auto
    with r p1 show ?thesis by auto
  qed
qed

lemma py_index_1:
  "py_index xs 1 = Inr y \<Longrightarrow> \<exists>x ys. xs = x # y # ys"
  by (cases xs; cases "tl xs") (auto simp: py_index_def split: if_splits)

lemma py_index_0:
  "xs \<noteq> [] \<Longrightarrow> py_index xs 0 = Inr (hd xs)"
  by (cases xs) (auto simp: py_index_def)

lemma attempt_loop_done:
  "\<not> attempts < 3 \<Longrightarrow> attempt_loop w a c attempts action tr = (None, tr)"
  by (simp add: attempt_loop.simps)

lemma attempt_loop_Returned:
  "attempts < 3 \<Longrightarrow> py_exec w tr action = Returned \<Longrightarrow>
     attempt_loop w a c attempts action tr = (None, tr @ [ExecCall action True])"
  by (simp add: attempt_loop.simps)

lemma attempt_loop_handler_raises:
  "attempts < 3 \<Longrightarrow> py_exec w tr action = Raised tb \<Longrightarrow> retry_feedback action tb = Inl e \<Longrightarrow>
     attempt_loop w a c attempts action tr = (Some (Propagated e), tr @ [ExecCall action False])"
  by (simp add: attempt_loop.simps)

lemma attempt_loop_retry:
  "attempts < 3 \<Longrightarrow> py_exec w tr action = Raised tb \<Longrightarrow> retry_feedback action tb = Inr fb \<Longrightarrow>
     attempt_loop w a c attempts action tr =
       attempt_loop w a c (Suc attempts)
         (py_replace ''```'' ''''
            (llm_retry w (tr @ [ExecCall action False] @ (if debug a then [PdbCall] else [])) fb))
         (tr @ [ExecCall action False] @ (if debug a then [PdbCall] else []) @
            [RetryCall fb
               (llm_retry w (tr @ [ExecCall action False] @ (if debug a then [PdbCall] else [])) fb)])"
  by (simp add: attempt_loop.simps [of w a c attempts] compiler_retry_def Let_def)

lemma attempt_loop_shape:
  "attempt_loop w a c n action tr = (r, tr') \<Longrightarrow>
     \<exists>ext. tr' = tr @ ext \<and> teardown_count ext = 0 \<and> steps_of ext = [] \<and>
           saved_files ext = [] \<and>
           (case r of None \<Rightarrow> True | Some out \<Rightarrow> \<exists>e. out = Propagated e)"
proof (induction "3 - n" arbitrary: n action tr)
  case 0
  then show ?case
    by (simp add: attempt_loop_done)
next
  case (Suc k)
  then have lt: "n < 3" and k: "k = 3 - Suc n"
    by simp_all
  show ?case
  proof (cases "py_exec w tr action")
    case Returned
    with lt Suc.prems show ?thesis
      by (auto simp: attempt_loop_Returned)
  next
    case (Raised tb)
    show ?thesis
    proof (cases "retry_feedback action tb")
      case (Inl e)
      with lt Raised Suc.prems show ?thesis
        by (auto simp: attempt_loop_handler_raises)
    next
      case (Inr fb)
      from Suc.prems obtain ext where
        "tr' = (tr @ [ExecCall action False] @ (if debug a then [PdbCall] else []) @
            [RetryCall fb
               (llm_retry w (tr @ [ExecCall action False] @ (if debug a then [PdbCall] else [])) fb)]) @ ext"
        "teardown_count ext = 0" "steps_of ext = []" "saved_files ext = []"
        "(case r of None \<Rightarrow> True | Some out \<Rightarrow> \<exists>e. out = Propagated e)"
        unfolding attempt_loop_retry [OF lt Raised Inr]
        using Suc.hyps(1) [OF k] by blast
      then show ?thesis
        by (intro exI [of _ "[ExecCall action False] @ (if debug a then [PdbCall] else []) @
            [RetryCall fb
               (llm_retry w (tr @ [ExecCall action False] @ (if debug a then [PdbCall] else [])) fb)] @ ext"])
           simp
    qed
  qed
qed

lemma step_loop_empty:
  "instructions_queue c = [] \<Longrightarrow>
     step_through_instructions w a c tr =
       (Finished,
        (case instruction_output_file a of
           None \<Rightarrow> tr
         | Some f \<Rightarrow> if f \<noteq> [] then tr @ [SaveCall f] else tr) @ [QuitCall])"
  by (simp add: step_through_instructions.simps)

lemma step_loop_rejected:
  "instructions_queue c = i # q \<Longrightarrow>
   is_potentially_dangerous (py_replace ''```'' '''' (llm_step w tr i)) \<Longrightarrow>
     step_through_instructions w a c tr = (SysExit 1, tr @ [StepCall i (llm_step w tr i)])"
  by (simp add: step_through_instructions.simps [of w a c tr] compiler_step_def check_danger_def)

lemma step_loop_accepted:
  "instructions_queue c = i # q \<Longrightarrow>
   \<not> is_potentially_dangerous (py_replace ''```'' '''' (llm_step w tr i)) \<Longrightarrow>
     step_through_instructions w a c tr =
       (case attempt_loop w a (c\<lparr>instructions_queue := q\<rparr>) 0
               (py_replace ''```'' '''' (llm_step w tr i)) (tr @ [StepCall i (llm_step w tr i)]) of
          (Some out, tr2) \<Rightarrow> (out, tr2)
        | (None, tr2) \<Rightarrow> step_through_instructions w a (c\<lparr>instructions_queue := q\<rparr>) tr2)"
  by (simp add: step_through_instructions.simps [of w a c tr] compiler_step_def check_danger_def)

lemma step_loop_shape:
  "step_through_instructions w a c tr = (out, tr') \<Longrightarrow>
     \<exists>ext. tr' = tr @ ext \<and>
       teardown_count ext = (if out = Finished then 1 else 0) \<and>
       set (saved_files ext) \<subseteq> set_option (instruction_output_file a) \<and>
       (\<forall>n. out = SysExit n \<longrightarrow>
          n = 1 \<and> (\<exists>pre i s. ext = pre @ [StepCall i s] \<and>
                     is_potentially_dangerous (py_replace ''```'' '''' s)))"
proof (induction "instructions_queue c" arbitrary: c tr)
  case Nil
  then show ?case
    by (auto simp: step_loop_empty [OF Nil.hyps [symmetric]] split: option.splits)
next
  case (Cons i q)
  note qc = Cons.hyps(2) [symmetric]
  let ?s = "llm_step w tr i"
  let ?c' = "c\<lparr>instructions_queue := q\<rparr>"
  show ?case
  proof (cases "is_potentially_dangerous (py_replace ''```'' '''' ?s)")
    case True
    from Cons.prems show ?thesis
      unfolding step_loop_rejected [OF qc True]
      by (intro exI [of _ "[StepCall i ?s]"]) (use True in auto)
  next
    case False
    obtain r tr2 where al: "attempt_loop w a ?c' 0 (py_replace ''```'' '''' ?s) (tr @ [StepCall i ?s]) = (r, tr2)"
      by (cases "attempt_loop w a ?c' 0 (py_replace ''```'' '''' ?s) (tr @ [StepCall i ?s])")
    from attempt_loop_shape [OF al] obtain e1 where e1:
      "tr2 = (tr @ [StepCall i ?s]) @ e1" "teardown_count e1 = 0" "saved_files e1 = []"
      "(case r of None \<Rightarrow> True | Some out \<Rightarrow> \<exists>e. out = Propagated e)"
      by blast
    show ?thesis
    proof (cases r)
      case (Some o1)
      with Cons.prems al have "out = o1" "tr' = tr2"
        by (simp_all add: step_loop_accepted [OF qc False])
      with e1 Some show ?thesis
        by (intro exI [of _ "StepCall i ?s # e1"]) auto
    next
      case None
      with Cons.prems al have "step_through_instructions w a ?c' tr2 = (out, tr')"
        by (simp add: step_loop_accepted [OF qc False])
      from Cons.hyps(1) [of ?c', OF _ this] obtain e2 where e2:
        "tr' = tr2 @ e2" "teardown_count e2 = (if out = Finished then 1 else 0)"
        "set (saved_files e2) \<subseteq> set_option (instruction_output_file a)"
        "\<forall>n. out = SysExit n \<longrightarrow>
          n = 1 \<and> (\<exists>pre i s. e2 = pre @ [StepCall i s] \<and>
                     is_potentially_dangerous (py_replace ''```'' '''' s))"
        by auto
      have sx: "\<forall>n. out = SysExit n \<longrightarrow>
          n = 1 \<and> (\<exists>pre j s. StepCall i ?s # e1 @ e2 = pre @ [StepCall j s] \<and>
                     is_potentially_dangerous (py_replace ''```'' '''' s))"
      proof (intro allI impI)
        fix n assume "out = SysExit n"
        with e2(4) obtain pre j s where p: "n = 1" "e2 = pre @ [StepCall j s]"
          "is_potentially_dangerous (py_replace ''```'' '''' s)" by blast
        then have "StepCall i ?s # e1 @ e2 = (StepCall i ?s # e1 @ pre) @ [StepCall j s]"
          by simp
        with p show "n = 1 \<and> (\<exists>pre j s. StepCall i ?s # e1 @ e2 = pre @ [StepCall j s] \<and>
                     is_potentially_dangerous (py_replace ''```'' '''' s))"
          by blast
      qed
      from e1 e2 have "tr' = tr @ (StepCall i ?s # e1 @ e2)"
        "teardown_count (StepCall i ?s # e1 @ e2) = (if out = Finished then 1 else 0)"
        "set (saved_files (StepCall i ?s # e1 @ e2)) \<subseteq> set_option (instruction_output_file a)"
        by simp_all
      with sx show ?thesis
        by blast
    qed
  qed
qed

lemma attempts_fail_loop:
  "attempts_fail w a c k action tr = Some (action', tr') \<Longrightarrow> n + k \<le> 3 \<Longrightarrow>
     attempt_loop w a c n action tr = attempt_loop w a c (n + k) action' tr' \<and>
     retry_count tr' = retry_count tr + k \<and>
     exec_count tr' = exec_count tr + k \<and>
     steps_of tr' = steps_of tr"
proof (induction k arbitrary: n action tr)
  case 0
  then show ?case by simp
next
  case (Suc k)
  from Suc.prems(1) obtain tb where tb: "py_exec w tr action = Raised tb"
    by (cases "py_exec w tr action") simp_all
  from Suc.prems(1) tb obtain fb where fb: "retry_feedback action tb = Inr fb"
    by (cases "retry_feedback action tb") simp_all
  let ?tr1 = "tr @ [ExecCall action False] @ (if debug a then [PdbCall] else [])"
  let ?s = "llm_retry w ?tr1 fb"
  from Suc.prems(1) tb fb
  have rest: "attempts_fail w a c k (py_replace ''```'' '''' ?s) (?tr1 @ [RetryCall fb ?s])
                = Some (action', tr')"
    by (simp add: compiler_retry_def Let_def)
  from Suc.prems(2) have lt: "n < 3" and le: "Suc n + k \<le> 3"
    by simp_all
  from Suc.IH [OF rest le] attempt_loop_retry [OF lt tb fb, of a c]
  show ?case
    by simp
qed

lemma step_loop_extends:
  "\<exists>ext. snd (step_through_instructions w a c tr) = tr @ ext"
  using step_loop_shape [of w a c tr "fst (step_through_instructions w a c tr)"
      "snd (step_through_instructions w a c tr)"]
  by auto

lemma step_loop_next:
  "instructions_queue c = j # q \<Longrightarrow>
     \<exists>ext. snd (step_through_instructions w a c tr) = tr @ StepCall j (llm_step w tr j) # ext"
proof (cases "is_potentially_dangerous (py_replace ''```'' '''' (llm_step w tr j))")
  case True
  assume "instructions_queue c = j # q"
  from step_loop_rejected [OF this True] show ?thesis
    by simp
next
  case False
  assume qc: "instructions_queue c = j # q"
  let ?c' = "c\<lparr>instructions_queue := q\<rparr>"
  let ?tr1 = "tr @ [StepCall j (llm_step w tr j)]"
  obtain r tr2 where al:
    "attempt_loop w a ?c' 0 (py_replace ''```'' '''' (llm_step w tr j)) ?tr1 = (r, tr2)"
    by (cases "attempt_loop w a ?c' 0 (py_replace ''```'' '''' (llm_step w tr j)) ?tr1")
  from attempt_loop_shape [OF al] obtain e1 where e1: "tr2 = ?tr1 @ e1"
    by blast
  show ?thesis
  proof (cases r)
    case (Some out)
    with al e1 show ?thesis
      by (simp add: step_loop_accepted [OF qc False])
  next
    case None
    from step_loop_extends [of w a ?c' tr2] obtain e2 where
      "snd (step_through_instructions w a ?c' tr2) = tr2 @ e2" ..
    with None al e1 show ?thesis
      by (simp add: step_loop_accepted [OF qc False])
  qed
qed

lemma run_replay:
  "use_compiled (the_compiler a) \<Longrightarrow> compiled_instructions (the_compiler a) \<noteq> [] \<Longrightarrow>
     run w a = run_compiled_instructions w
                 (py_replace ''```'' '''' (py_join ''\<newline>'' (compiled_instructions (the_compiler a)))) []"
  by (simp add: run_def compiled_unit_def Let_def)

lemma run_steps:
  "\<not> (use_compiled (the_compiler a) \<and> compiled_instructions (the_compiler a) \<noteq> []) \<Longrightarrow>
     run w a = step_through_instructions w a (the_compiler a) []"
  by (auto simp: run_def Let_def)

lemma replay_cases:
  "run_compiled_instructions w u [] =
     (if is_potentially_dangerous u then (SysExit 1, [])
      else case py_exec w [] u of
             Returned \<Rightarrow> (Finished, [ExecCall u True, QuitCall])
           | Raised tb \<Rightarrow> (Propagated (ExecError tb), [ExecCall u False]))"
  by (simp add: run_compiled_instructions_def check_danger_def split: exec_result.splits)

section \<open>The claims\<close>

subsection \<open>C1: three failures in a row\<close>

text \<open>
  C1. The claim: for an instruction whose actions fail three times in a row, the step
  loop calls \<^verbatim>\<open>retry\<close> exactly twice and then propagates a failure to the caller
  of \<^verbatim>\<open>run()\<close>, never going on to the next instruction.

  The loop does otherwise. The \<^verbatim>\<open>except\<close> branch calls \<^verbatim>\<open>retry\<close> after every
  failed execution, also after the third, and nothing is raised when \<open>attempts\<close>
  reaches 3. As amended: when the first action of the instruction \<open>i\<close> at the head of
  the queue passes the Safety Gate and three executions in a row raise, each with a
  trace from which the feedback can be built, then three actions were executed,
  \<^verbatim>\<open>retry\<close> was called three times, no further instruction was taken from the queue
  meanwhile, no failure is propagated, and the loop goes on with the rest of the queue:
  the next call is \<^verbatim>\<open>step()\<close> for the next instruction (the action returned by the
  third \<^verbatim>\<open>retry\<close> is never executed).
\<close>

theorem C1_three_failures_then_next_instruction:
  assumes "instructions_queue c = i # q"
    and "\<not> is_potentially_dangerous (py_replace ''```'' '''' (llm_step w tr i))"
    and "attempts_fail w a (c\<lparr>instructions_queue := q\<rparr>) 3
           (py_replace ''```'' '''' (llm_step w tr i)) (tr @ [StepCall i (llm_step w tr i)])
         = Some (action', tr')"
  shows "step_through_instructions w a c tr =
           step_through_instructions w a (c\<lparr>instructions_queue := q\<rparr>) tr' \<and>
         retry_count tr' = retry_count tr + 3 \<and>
         exec_count tr' = exec_count tr + 3 \<and>
         steps_of tr' = steps_of tr @ [i] \<and>
         (\<forall>j q'. q = j # q' \<longrightarrow>
            (\<exists>ext. snd (step_through_instructions w a c tr)
                     = tr' @ StepCall j (llm_step w tr' j) # ext))"
proof -
  let ?c' = "c\<lparr>instructions_queue := q\<rparr>"
  from attempts_fail_loop [OF assms(3), of 0]
  have al: "attempt_loop w a ?c' 0 (py_replace ''```'' '''' (llm_step w tr i))
              (tr @ [StepCall i (llm_step w tr i)]) = (None, tr')"
    and counts: "retry_count tr' = retry_count tr + 3" "exec_count tr' = exec_count tr + 3"
      "steps_of tr' = steps_of tr @ [i]"
    by (simp_all add: attempt_loop_done)
  have eq: "step_through_instructions w a c tr = step_through_instructions w a ?c' tr'"
    by (simp add: step_loop_accepted [OF assms(1,2)] al)
  have "\<exists>ext. snd (step_through_instructions w a c tr) = tr' @ StepCall j (llm_step w tr' j) # ext"
    if "q = j # q'" for j q'
    unfolding eq using step_loop_next [of ?c' j q' w a tr'] that by simp
  with eq counts show ?thesis
    by blast
qed

text \<open>
  The hypotheses hold in the world where every action but \<^verbatim>\<open>env.b()\<close> raises, for
  the queue \<^verbatim>\<open>a\<close>, \<^verbatim>\<open>b\<close>.
\<close>

theorem C1_three_failures_witness:
  "attempts_fail world_failing (stepping_agent [''a'', ''b''])
     ((the_compiler (stepping_agent [''a'', ''b'']))\<lparr>instructions_queue := [''b'']\<rparr>) 3
     ''env.a()'' [StepCall ''a'' ''```env.a()```'']
     = Some (''env.wait(1)'', example_three_failures) \<and>
   retry_count example_three_failures = 3 \<and>
   step_through_instructions world_failing (stepping_agent [''a'', ''b''])
     (the_compiler (stepping_agent [''a'', ''b''])) []
   = step_through_instructions world_failing (stepping_agent [''a'', ''b''])
       ((the_compiler (stepping_agent [''a'', ''b'']))\<lparr>instructions_queue := [''b'']\<rparr>)
       example_three_failures"
proof -
  have h1: "instructions_queue (the_compiler (stepping_agent [''a'', ''b''])) = ''a'' # [''b'']"
    by code_simp
  have h2: "\<not> is_potentially_dangerous (py_replace ''```'' '''' (llm_step world_failing [] ''a''))"
    by code_simp
  have h3: "attempts_fail world_failing (stepping_agent [''a'', ''b''])
     ((the_compiler (stepping_agent [''a'', ''b'']))\<lparr>instructions_queue := [''b'']\<rparr>) 3
     (py_replace ''```'' '''' (llm_step world_failing [] ''a''))
     ([] @ [StepCall ''a'' (llm_step world_failing [] ''a'')])
     = Some (''env.wait(1)'', example_three_failures)"
    by code_simp
  have h3': "attempts_fail world_failing (stepping_agent [''a'', ''b''])
     ((the_compiler (stepping_agent [''a'', ''b'']))\<lparr>instructions_queue := [''b'']\<rparr>) 3
     ''env.a()'' [StepCall ''a'' ''```env.a()```'']
     = Some (''env.wait(1)'', example_three_failures)"
    by code_simp
  from C1_three_failures_then_next_instruction [OF h1 h2 h3] h3' show ?thesis
    by simp
qed

text \<open>
  The claim as stated fails there: \<^verbatim>\<open>run()\<close> returns normally, \<^verbatim>\<open>retry\<close> was
  called three times (all for \<^verbatim>\<open>a\<close>, since \<^verbatim>\<open>env.b()\<close> returns), and \<^verbatim>\<open>b\<close> was
  stepped after \<^verbatim>\<open>a\<close>.
\<close>

theorem C1_two_retries_then_failure_counterexample:
  "fst (run world_failing (stepping_agent [''a'', ''b''])) = Finished \<and>
   retry_count (snd (run world_failing (stepping_agent [''a'', ''b'']))) = 3 \<and>
   steps_of (snd (run world_failing (stepping_agent [''a'', ''b'']))) = [''a'', ''b'']"
  by code_simp

subsection \<open>C2: session teardown\<close>

text \<open>
  C2. The claim: the browser session is closed exactly once per \<^verbatim>\<open>run()\<close>, on either
  path and whether \<^verbatim>\<open>run()\<close> succeeds or a failure propagates.

  Neither path has a \<^verbatim>\<open>try\<close>/\<^verbatim>\<open>finally\<close>: \<^verbatim>\<open>env.driver.quit()\<close> is the last
  statement of both. As amended: \<^verbatim>\<open>env.driver.quit()\<close> is called exactly once in
  every \<^verbatim>\<open>run()\<close> that returns normally, on either path, and not at all in a
  \<^verbatim>\<open>run()\<close> that ends by \<^verbatim>\<open>sys.exit\<close> or by an exception.
\<close>

theorem C2_teardown_once_iff_finished:
  "teardown_count (snd (run w a)) = (if fst (run w a) = Finished then 1 else 0)"
proof (cases "use_compiled (the_compiler a) \<and> compiled_instructions (the_compiler a) \<noteq> []")
  case True
  then show ?thesis
    by (simp add: run_replay replay_cases split: exec_result.splits)
next
  case False
  from step_loop_shape [of w a "the_compiler a" "[]"
      "fst (step_through_instructions w a (the_compiler a) [])"
      "snd (step_through_instructions w a (the_compiler a) [])"]
  have "teardown_count (snd (step_through_instructions w a (the_compiler a) [])) =
          (if fst (step_through_instructions w a (the_compiler a) []) = Finished then 1 else 0)"
    by auto
  with False show ?thesis
    by (simp add: run_steps)
qed

text \<open>A run that returns, and a run that the Safety Gate ends.\<close>

theorem C2_teardown_witness:
  "fst (run world_ok (stepping_agent [''a'', ''b''])) = Finished \<and>
   teardown_count (snd (run world_ok (stepping_agent [''a'', ''b'']))) = 1 \<and>
   fst (run world_importing (stepping_agent [''a'', ''b''])) = SysExit 1 \<and>
   teardown_count (snd (run world_importing (stepping_agent [''a'', ''b'']))) = 0"
proof -
  have "fst (run world_ok (stepping_agent [''a'', ''b''])) = Finished"
    and "fst (run world_importing (stepping_agent [''a'', ''b''])) = SysExit 1"
    by code_simp+
  with C2_teardown_once_iff_finished [of world_ok "stepping_agent [''a'', ''b'']"]
    C2_teardown_once_iff_finished [of world_importing "stepping_agent [''a'', ''b'']"]
  show ?thesis by simp
qed

text \<open>
  The claim as stated fails on the replay path when the cached plan raises: the plan
  was executed, the exception reaches the caller, and the session was not closed.
\<close>

theorem C2_teardown_after_failure_counterexample:
  "fst (run world_failing (cached_agent [''env.a()''])) = Propagated (ExecError (example_traceback ''1'')) \<and>
   exec_count (snd (run world_failing (cached_agent [''env.a()'']))) = 1 \<and>
   teardown_count (snd (run world_failing (cached_agent [''env.a()'']))) = 0"
  by code_simp

subsection \<open>C3: the danger predicate\<close>

text \<open>
  C3. The claim: the predicate rejects every action text that contains a module-import
  statement or one of the substrings \<^verbatim>\<open>shutil\<close>, \<^verbatim>\<open>requests\<close>, \<^verbatim>\<open>urllib\<close>, and
  accepts every text that contains none of these.

  The predicate looks for the seven characters \<^verbatim>\<open>"import "\<close> (the word and one
  space), not for import statements. As amended: it rejects a text if and only if the
  text contains the substring \<^verbatim>\<open>"import "\<close> or one of \<^verbatim>\<open>shutil\<close>, \<^verbatim>\<open>requests\<close>,
  \<^verbatim>\<open>urllib\<close>. (\<^term>\<open>sublist\<close> is the library's notion: \<open>xs\<close> occurs in \<open>ys\<close> as a
  contiguous block.)
\<close>

theorem C3_gate_is_lexical:
  "is_potentially_dangerous code_str \<longleftrightarrow>
     sublist ''import '' code_str \<or> sublist ''shutil'' code_str \<or>
     sublist ''requests'' code_str \<or> sublist ''urllib'' code_str"
  by (simp add: is_potentially_dangerous_def blacklisted_libraries_def str_contains_sublist)

text \<open>One text of each kind.\<close>

theorem C3_gate_witness:
  "is_potentially_dangerous ''import os'' \<and> \<not> is_potentially_dangerous ''env.click()''"
  using C3_gate_is_lexical [of "''import os''"] C3_gate_is_lexical [of "''env.click()''"]
  by (simp add: is_potentially_dangerous_def blacklisted_libraries_def)

text \<open>
  The claim as stated fails for the import statement written with a tab,
  \<^verbatim>\<open>import<TAB>os\<close>: Python imports the module, the predicate accepts the text.
\<close>

theorem C3_import_statement_counterexample:
  "spec_contains_import_statement (''import'' @ [CHR 0x09] @ ''os'') \<and>
   \<not> is_potentially_dangerous (''import'' @ [CHR 0x09] @ ''os'')"
  by (simp add: spec_contains_import_statement_def spec_import_statement_def is_blank_def
      is_name_char_def is_potentially_dangerous_def blacklisted_libraries_def)

subsection \<open>C4: the replay path\<close>

text \<open>
  C4. The claim: \<^verbatim>\<open>run()\<close> takes the replay path if and only if caching is enabled
  and the compiled instructions are not empty; it then joins the cached actions in
  order into one unit, strips the code fences, executes the unit exactly once with no
  retry and no \<^verbatim>\<open>step()\<close>, and performs teardown; otherwise the step loop runs.

  The choice of the path, the unit, and the absence of \<^verbatim>\<open>step()\<close> and \<^verbatim>\<open>retry\<close>
  are as claimed. The execution and the teardown are conditional. As amended: on the
  replay path the unit is executed at most once; when the Safety Gate accepts the unit
  it is executed exactly once, and \<^verbatim>\<open>env.driver.quit()\<close> follows when that execution
  returns, while an exception of the unit reaches the caller with no teardown.
\<close>

theorem C4_replay_path:
  "(use_compiled (the_compiler a) \<and> compiled_instructions (the_compiler a) \<noteq> [] \<longrightarrow>
      run w a = run_compiled_instructions w
                  (py_replace ''```'' '''' (py_join ''\<newline>'' (compiled_instructions (the_compiler a)))) [] \<and>
      steps_of (snd (run w a)) = [] \<and>
      retry_count (snd (run w a)) = 0 \<and>
      exec_count (snd (run w a)) \<le> 1 \<and>
      (\<not> is_potentially_dangerous
            (py_replace ''```'' '''' (py_join ''\<newline>'' (compiled_instructions (the_compiler a)))) \<longrightarrow>
         run w a =
           (case py_exec w []
                   (py_replace ''```'' '''' (py_join ''\<newline>'' (compiled_instructions (the_compiler a)))) of
              Returned \<Rightarrow>
                (Finished,
                 [ExecCall (py_replace ''```'' ''''
                              (py_join ''\<newline>'' (compiled_instructions (the_compiler a)))) True,
                  QuitCall])
            | Raised tb \<Rightarrow>
                (Propagated (ExecError tb),
                 [ExecCall (py_replace ''```'' ''''
                              (py_join ''\<newline>'' (compiled_instructions (the_compiler a)))) False])))) \<and>
   (\<not> (use_compiled (the_compiler a) \<and> compiled_instructions (the_compiler a) \<noteq> []) \<longrightarrow>
      run w a = step_through_instructions w a (the_compiler a) [])"
proof (cases "use_compiled (the_compiler a) \<and> compiled_instructions (the_compiler a) \<noteq> []")
  case True
  then show ?thesis
    by (auto simp: run_replay replay_cases split: exec_result.splits)
next
  case False
  from run_steps [OF False] False show ?thesis
    by blast
qed

text \<open>A cached plan of two actions with code fences, and an agent without a cache.\<close>

theorem C4_replay_path_witness:
  "use_compiled (the_compiler (cached_agent [''```env.a()'', ''env.c()```''])) \<and>
   compiled_instructions (the_compiler (cached_agent [''```env.a()'', ''env.c()```''])) \<noteq> [] \<and>
   \<not> is_potentially_dangerous ''env.a()\<newline>env.c()'' \<and>
   py_exec world_ok [] ''env.a()\<newline>env.c()'' = Returned \<and>
   run world_ok (cached_agent [''```env.a()'', ''env.c()```''])
     = (Finished, [ExecCall ''env.a()\<newline>env.c()'' True, QuitCall]) \<and>
   \<not> use_compiled (the_compiler (stepping_agent [''a''])) \<and>
   run world_ok (stepping_agent [''a''])
     = step_through_instructions world_ok (stepping_agent [''a''])
         (the_compiler (stepping_agent [''a''])) []"
proof -
  have u: "py_replace ''```'' '''' (py_join ''\<newline>''
             (compiled_instructions (the_compiler (cached_agent [''```env.a()'', ''env.c()```'']))))
           = ''env.a()\<newline>env.c()''"
    by code_simp
  have h: "use_compiled (the_compiler (cached_agent [''```env.a()'', ''env.c()```'']))"
    "compiled_instructions (the_compiler (cached_agent [''```env.a()'', ''env.c()```''])) \<noteq> []"
    "\<not> is_potentially_dangerous ''env.a()\<newline>env.c()''"
    "py_exec world_ok [] ''env.a()\<newline>env.c()'' = Returned"
    "\<not> use_compiled (the_compiler (stepping_agent [''a'']))"
    by code_simp+
  from C4_replay_path [of "cached_agent [''```env.a()'', ''env.c()```'']" world_ok, unfolded u] h(1-3)
  have "run world_ok (cached_agent [''```env.a()'', ''env.c()```'']) =
          (case py_exec world_ok [] ''env.a()\<newline>env.c()'' of
             Returned \<Rightarrow> (Finished, [ExecCall ''env.a()\<newline>env.c()'' True, QuitCall])
           | Raised tb \<Rightarrow> (Propagated (ExecError tb), [ExecCall ''env.a()\<newline>env.c()'' False]))"
    by blast
  then have c1: "run world_ok (cached_agent [''```env.a()'', ''env.c()```''])
     = (Finished, [ExecCall ''env.a()\<newline>env.c()'' True, QuitCall])"
    by (simp only: h(4) exec_result.case)
  from C4_replay_path [of "stepping_agent [''a'']" world_ok] h(5)
  have c2: "run world_ok (stepping_agent [''a''])
     = step_through_instructions world_ok (stepping_agent [''a''])
         (the_compiler (stepping_agent [''a''])) []"
    by blast
  from h c1 c2 show ?thesis
    by blast
qed

text \<open>
  The claim as stated fails for a cached plan that the Safety Gate rejects (it is not
  executed and the session is not closed) and for a cached plan that raises (it is
  executed once and the session is not closed).
\<close>

theorem C4_replay_counterexample:
  "use_compiled (the_compiler (cached_agent [''env.a()'', ''import os''])) \<and>
   compiled_instructions (the_compiler (cached_agent [''env.a()'', ''import os''])) \<noteq> [] \<and>
   run world_ok (cached_agent [''env.a()'', ''import os'']) = (SysExit 1, []) \<and>
   exec_count (snd (run world_ok (cached_agent [''env.a()'', ''import os'']))) = 0 \<and>
   teardown_count (snd (run world_ok (cached_agent [''env.a()'', ''import os'']))) = 0 \<and>
   use_compiled (the_compiler (cached_agent [''env.c()''])) \<and>
   compiled_instructions (the_compiler (cached_agent [''env.c()''])) \<noteq> [] \<and>
   run world_failing (cached_agent [''env.c()''])
     = (Propagated (ExecError (example_traceback ''1'')), [ExecCall ''env.c()'' False]) \<and>
   teardown_count (snd (run world_failing (cached_agent [''env.c()'']))) = 0"
  by code_simp

subsection \<open>C5: failures followed by a success\<close>

text \<open>
  C5. For the instruction \<open>i\<close> at the head of the queue whose first \<open>K < 3\<close>
  actions raise and whose next action returns, the step loop calls \<^verbatim>\<open>retry\<close> exactly
  \<open>K\<close> times and then goes on with the next instruction; no instruction is taken
  from the queue during the retries. That the \<open>(K+1)\<close>-th action was generated means
  that \<^verbatim>\<open>retry\<close> was called after each failure, so each failure left a trace from
  which the feedback could be built; \<^term>\<open>attempts_fail\<close> says so. The first action
  is the one that went through the Safety Gate.
\<close>

theorem C5_retry_until_success:
  assumes "instructions_queue c = i # q"
    and "\<not> is_potentially_dangerous (py_replace ''```'' '''' (llm_step w tr i))"
    and "K < 3"
    and "attempts_fail w a (c\<lparr>instructions_queue := q\<rparr>) K
           (py_replace ''```'' '''' (llm_step w tr i)) (tr @ [StepCall i (llm_step w tr i)])
         = Some (action', tr')"
    and "py_exec w tr' action' = Returned"
  shows "step_through_instructions w a c tr =
           step_through_instructions w a (c\<lparr>instructions_queue := q\<rparr>)
             (tr' @ [ExecCall action' True]) \<and>
         retry_count (tr' @ [ExecCall action' True]) = retry_count tr + K \<and>
         exec_count (tr' @ [ExecCall action' True]) = exec_count tr + K + 1 \<and>
         steps_of (tr' @ [ExecCall action' True]) = steps_of tr @ [i] \<and>
         (\<forall>j q'. q = j # q' \<longrightarrow>
            (\<exists>ext. snd (step_through_instructions w a c tr)
                     = tr' @ ExecCall action' True
                         # StepCall j (llm_step w (tr' @ [ExecCall action' True]) j) # ext))"
proof -
  let ?c' = "c\<lparr>instructions_queue := q\<rparr>"
  let ?tr2 = "tr' @ [ExecCall action' True]"
  from assms(3) have K3: "0 + K \<le> 3" by simp
  from attempts_fail_loop [OF assms(4) K3] assms(3,5)
  have al: "attempt_loop w a ?c' 0 (py_replace ''```'' '''' (llm_step w tr i))
              (tr @ [StepCall i (llm_step w tr i)]) = (None, ?tr2)"
    and counts: "retry_count ?tr2 = retry_count tr + K" "exec_count ?tr2 = exec_count tr + K + 1"
      "steps_of ?tr2 = steps_of tr @ [i]"
    by (simp_all add: attempt_loop_Returned)
  have eq: "step_through_instructions w a c tr = step_through_instructions w a ?c' ?tr2"
    by (simp add: step_loop_accepted [OF assms(1,2)] al)
  have "\<exists>ext. snd (step_through_instructions w a c tr)
          = tr' @ ExecCall action' True # StepCall j (llm_step w ?tr2 j) # ext"
    if "q = j # q'" for j q'
    unfolding eq using step_loop_next [of ?c' j q' w a ?tr2] that by simp
  with eq counts show ?thesis
    by blast
qed

text \<open>Two failures and a success, in the world whose executions raise until the second retry.\<close>

theorem C5_retry_until_success_witness:
  "(2::nat) < 3 \<and>
   attempts_fail world_third_time (stepping_agent [''a'', ''b''])
     ((the_compiler (stepping_agent [''a'', ''b'']))\<lparr>instructions_queue := [''b'']\<rparr>) 2
     ''env.a()'' [StepCall ''a'' ''```env.a()```'']
     = Some (''env.wait(1)'', example_two_failures) \<and>
   py_exec world_third_time example_two_failures ''env.wait(1)'' = Returned \<and>
   retry_count (example_two_failures @ [ExecCall ''env.wait(1)'' True]) = 2 \<and>
   steps_of (example_two_failures @ [ExecCall ''env.wait(1)'' True]) = [''a''] \<and>
   step_through_instructions world_third_time (stepping_agent [''a'', ''b''])
     (the_compiler (stepping_agent [''a'', ''b''])) []
   = step_through_instructions world_third_time (stepping_agent [''a'', ''b''])
       ((the_compiler (stepping_agent [''a'', ''b'']))\<lparr>instructions_queue := [''b'']\<rparr>)
       (example_two_failures @ [ExecCall ''env.wait(1)'' True])"
proof -
  have h1: "instructions_queue (the_compiler (stepping_agent [''a'', ''b''])) = ''a'' # [''b'']"
    by code_simp
  have h2: "\<not> is_potentially_dangerous (py_replace ''```'' '''' (llm_step world_third_time [] ''a''))"
    by code_simp
  have h3: "(2::nat) < 3" by simp
  have h4: "attempts_fail world_third_time (stepping_agent [''a'', ''b''])
     ((the_compiler (stepping_agent [''a'', ''b'']))\<lparr>instructions_queue := [''b'']\<rparr>) 2
     (py_replace ''```'' '''' (llm_step world_third_time [] ''a''))
     ([] @ [StepCall ''a'' (llm_step world_third_time [] ''a'')])
     = Some (''env.wait(1)'', example_two_failures)"
    by code_simp
  have h4': "attempts_fail world_third_time (stepping_agent [''a'', ''b''])
     ((the_compiler (stepping_agent [''a'', ''b'']))\<lparr>instructions_queue := [''b'']\<rparr>) 2
     ''env.a()'' [StepCall ''a'' ''```env.a()```'']
     = Some (''env.wait(1)'', example_two_failures)"
    by code_simp
  have h5: "py_exec world_third_time example_two_failures ''env.wait(1)'' = Returned"
    by code_simp
  from C5_retry_until_success [OF h1 h2 h3 h4 h5] h4' h5 show ?thesis
    by simp
qed

subsection \<open>C6: every action succeeds at once\<close>

text \<open>
  C6. When every instruction of the queue gets an action that passes the Safety Gate and
  returns on its first execution, the step loop returns normally, has executed as many
  actions as the queue had instructions, has taken the instructions from the queue in
  the queue's order, each once, and has not called \<^verbatim>\<open>retry\<close>.
\<close>

theorem C6_first_try_drains_queue:
  assumes "all_first_try w tr (instructions_queue c)"
  shows "fst (step_through_instructions w a c tr) = Finished \<and>
         exec_count (snd (step_through_instructions w a c tr))
           = exec_count tr + length (instructions_queue c) \<and>
         steps_of (snd (step_through_instructions w a c tr))
           = steps_of tr @ instructions_queue c \<and>
         retry_count (snd (step_through_instructions w a c tr)) = retry_count tr"
  using assms
proof (induction "instructions_queue c" arbitrary: c tr)
  case Nil
  then show ?case
    by (simp add: step_loop_empty [OF Nil.hyps(1) [symmetric]] Nil.hyps(1) [symmetric]
        split: option.splits)
next
  case (Cons i q)
  note qc = Cons.hyps(2) [symmetric]
  let ?s = "llm_step w tr i"
  let ?act = "py_replace ''```'' '''' ?s"
  let ?c' = "c\<lparr>instructions_queue := q\<rparr>"
  let ?tr2 = "tr @ [StepCall i ?s, ExecCall ?act True]"
  from Cons.prems qc have ok: "\<not> is_potentially_dangerous ?act"
    and ex: "py_exec w (tr @ [StepCall i ?s]) ?act = Returned"
    and rest: "all_first_try w ?tr2 (instructions_queue ?c')"
    by simp_all
  have eq: "step_through_instructions w a c tr = step_through_instructions w a ?c' ?tr2"
    by (simp add: step_loop_accepted [OF qc ok] attempt_loop_Returned ex)
  from Cons.hyps(1) [of ?c' ?tr2, OF _ rest] show ?case
    unfolding eq by (simp add: qc)
qed

text \<open>The queue \<^verbatim>\<open>a\<close>, \<^verbatim>\<open>b\<close> in the world where every action returns.\<close>

theorem C6_first_try_witness:
  "all_first_try world_ok [] (instructions_queue (the_compiler (stepping_agent [''a'', ''b'']))) \<and>
   fst (step_through_instructions world_ok (stepping_agent [''a'', ''b''])
          (the_compiler (stepping_agent [''a'', ''b''])) []) = Finished \<and>
   exec_count (snd (step_through_instructions world_ok (stepping_agent [''a'', ''b''])
          (the_compiler (stepping_agent [''a'', ''b''])) [])) = 2 \<and>
   steps_of (snd (step_through_instructions world_ok (stepping_agent [''a'', ''b''])
          (the_compiler (stepping_agent [''a'', ''b''])) [])) = [''a'', ''b''] \<and>
   retry_count (snd (step_through_instructions world_ok (stepping_agent [''a'', ''b''])
          (the_compiler (stepping_agent [''a'', ''b''])) [])) = 0"
proof -
  have h: "all_first_try world_ok [] (instructions_queue (the_compiler (stepping_agent [''a'', ''b''])))"
    by code_simp
  have q: "instructions_queue (the_compiler (stepping_agent [''a'', ''b''])) = [''a'', ''b'']"
    by code_simp
  from C6_first_try_drains_queue [OF h, of "stepping_agent [''a'', ''b'']"] h show ?thesis
    unfolding q by simp
qed

subsection \<open>C7: the failing line\<close>

text \<open>
  C7. When the trace of a failed execution yields line number 2 and the action, with
  double newlines replaced by single ones, has three lines, the feedback names exactly
  the second of these lines and carries the trimmed trace, which is not empty. The
  trimmed trace is made of the fourth and fifth line of the trace with the class name
  replaced by \<^verbatim>\<open>env\<close>, and the line number is read after the first occurrence of
  \<^verbatim>\<open>"line "\<close> in it, up to the next comma.
\<close>

theorem C7_failing_line_two:
  assumes "get_relevant_part_of_stack_trace tb = Inr d"
    and "line_num d = 2"
    and "py_split ''\<newline>'' (py_replace ''\<newline>\<newline>'' ''\<newline>'' action) = [l1, l2, l3]"
  shows "retry_feedback action tb = Inr (''\<newline>Failed on line: '' @ l2 @ ''\<newline>'' @ stack_trace d) \<and>
         stack_trace d \<noteq> [] \<and>
         stack_trace d = py_replace ''GPTSeleniumAgent'' ''env''
                           (py_join ''\<newline>'' (take 2 (drop 3 (py_split ''\<newline>'' tb)))) \<and>
         (\<exists>p r. stack_trace d = p @ ''line '' @ r \<and>
                (\<forall>k<length p. \<not> prefix ''line '' (drop k (stack_trace d))) \<and>
                py_int (hd (py_split '','' (hd (py_split ''line '' r)))) = Some 2)"
proof -
  define st where "st = py_replace class_name ''env''
                          (py_join ''\<newline>'' (slice_3_5 (py_split ''\<newline>'' tb)))"
  from assms(1) obtain after_line where al: "py_index (py_split ''line '' st) 1 = Inr after_line"
    by (cases "py_index (py_split ''line '' st) 1")
       (simp_all add: get_relevant_part_of_stack_trace_def st_def [symmetric])
  from assms(1) al obtain n where n: "py_int (hd (py_split '','' after_line)) = Some n"
    and d: "d = \<lparr>stack_trace = st, line_num = n\<rparr>"
    by (cases "py_int (hd (py_split '','' after_line))")
       (simp_all add: get_relevant_part_of_stack_trace_def st_def [symmetric]
          py_index_0 [OF py_split_not_Nil])
  from d assms(2) have n2: "n = 2" and sd: "stack_trace d = st"
    by simp_all
  from py_index_1 [OF al] obtain p qs where sp: "py_split ''line '' st = p # after_line # qs"
    by blast
  have "''line '' \<noteq> []" by simp
  from py_split_first [OF this sp] obtain r where r:
    "st = p @ ''line '' @ r" "py_split ''line '' r = after_line # qs"
    "\<forall>k<length p. \<not> prefix ''line '' (drop k st)"
    by blast
  have fb: "retry_feedback action tb = Inr (''\<newline>Failed on line: '' @ l2 @ ''\<newline>'' @ stack_trace d)"
    using assms by (simp add: retry_feedback_def problem_instruction_of_def py_index_def)
  from r(1) have ne: "st \<noteq> []" by simp
  from r n n2 have "\<exists>p r. st = p @ ''line '' @ r \<and>
                (\<forall>k<length p. \<not> prefix ''line '' (drop k st)) \<and>
                py_int (hd (py_split '','' (hd (py_split ''line '' r)))) = Some 2"
    by (intro exI [of _ p] exI [of _ r]) simp
  with fb ne sd show ?thesis
    by (simp add: st_def class_name_def slice_3_5_def)
qed

text \<open>A trace of CPython's shape for a failure on line 2, and an action with a blank line.\<close>

theorem C7_failing_line_two_witness:
  "get_relevant_part_of_stack_trace (example_traceback ''2'')
     = Inr \<lparr>stack_trace = example_excerpt ''2'', line_num = 2\<rparr> \<and>
   py_split ''\<newline>'' (py_replace ''\<newline>\<newline>'' ''\<newline>'' ''a = 1\<newline>\<newline>env.clik()\<newline>b = 2'')
     = [''a = 1'', ''env.clik()'', ''b = 2''] \<and>
   retry_feedback ''a = 1\<newline>\<newline>env.clik()\<newline>b = 2'' (example_traceback ''2'')
     = Inr (''\<newline>Failed on line: env.clik()\<newline>'' @ example_excerpt ''2'') \<and>
   example_excerpt ''2'' \<noteq> []"
proof -
  have h1: "get_relevant_part_of_stack_trace (example_traceback ''2'')
     = Inr \<lparr>stack_trace = example_excerpt ''2'', line_num = 2\<rparr>"
    by code_simp
  have h2: "line_num \<lparr>stack_trace = example_excerpt ''2'', line_num = 2\<rparr> = 2"
    by simp
  have h3: "py_split ''\<newline>'' (py_replace ''\<newline>\<newline>'' ''\<newline>'' ''a = 1\<newline>\<newline>env.clik()\<newline>b = 2'')
     = [''a = 1'', ''env.clik()'', ''b = 2'']"
    by code_simp
  note c = C7_failing_line_two [OF h1 h2 h3]
  from c have "retry_feedback ''a = 1\<newline>\<newline>env.clik()\<newline>b = 2'' (example_traceback ''2'')
     = Inr (''\<newline>Failed on line: '' @ ''env.clik()'' @ ''\<newline>'' @
            stack_trace \<lparr>stack_trace = example_excerpt ''2'', line_num = 2\<rparr>)"
    by (rule conjunct1)
  then have c1: "retry_feedback ''a = 1\<newline>\<newline>env.clik()\<newline>b = 2'' (example_traceback ''2'')
     = Inr (''\<newline>Failed on line: env.clik()\<newline>'' @ example_excerpt ''2'')"
    by simp
  from c have "stack_trace \<lparr>stack_trace = example_excerpt ''2'', line_num = 2\<rparr> \<noteq> []"
    by blast
  then have c2: "example_excerpt ''2'' \<noteq> []"
    by simp
  from h1 h3 c1 c2 show ?thesis
    by blast
qed

subsection \<open>C8: rejection by the Safety Gate\<close>

text \<open>
  C8. When the Safety Gate rejects the action that \<^verbatim>\<open>step()\<close> returned, the run ends
  at once with exit status 1, whatever is left in the queue: nothing is executed,
  \<^verbatim>\<open>retry\<close> is not called and the session is not closed after the rejected
  \<^verbatim>\<open>step()\<close>. And every \<^verbatim>\<open>run()\<close> that ends by \<^verbatim>\<open>sys.exit\<close> has status 1, has
  not closed the session, and ended right at a rejected text: the cached plan, before
  any call, or the action of the last \<^verbatim>\<open>step()\<close>.
\<close>

theorem C8_gate_rejection_exits:
  "(instructions_queue c = i # q \<and>
    is_potentially_dangerous (py_replace ''```'' '''' (llm_step w tr i)) \<longrightarrow>
      step_through_instructions w a c tr = (SysExit 1, tr @ [StepCall i (llm_step w tr i)])) \<and>
   (\<forall>n. fst (run w a) = SysExit n \<longrightarrow>
      n = 1 \<and> teardown_count (snd (run w a)) = 0 \<and>
      (snd (run w a) = [] \<and>
         is_potentially_dangerous (compiled_unit (compiled_instructions (the_compiler a))) \<or>
       (\<exists>pre j s. snd (run w a) = pre @ [StepCall j s] \<and>
          is_potentially_dangerous (py_replace ''```'' '''' s))))"
proof (intro conjI allI impI)
  assume "instructions_queue c = i # q \<and>
    is_potentially_dangerous (py_replace ''```'' '''' (llm_step w tr i))"
  then show "step_through_instructions w a c tr = (SysExit 1, tr @ [StepCall i (llm_step w tr i)])"
    by (simp add: step_loop_rejected)
next
  fix n assume ex: "fst (run w a) = SysExit n"
  show "n = 1"
  proof (cases "use_compiled (the_compiler a) \<and> compiled_instructions (the_compiler a) \<noteq> []")
    case True
    with ex show ?thesis
      by (simp add: run_replay compiled_unit_def replay_cases split: if_splits exec_result.splits)
  next
    case False
    with ex step_loop_shape [of w a "the_compiler a" "[]" "SysExit n"
        "snd (step_through_instructions w a (the_compiler a) [])"]
    show ?thesis
      by (auto simp: run_steps prod_eq_iff)
  qed
next
  fix n assume ex: "fst (run w a) = SysExit n"
  show "teardown_count (snd (run w a)) = 0"
  proof (cases "use_compiled (the_compiler a) \<and> compiled_instructions (the_compiler a) \<noteq> []")
    case True
    with ex show ?thesis
      by (simp add: run_replay compiled_unit_def replay_cases split: if_splits exec_result.splits)
  next
    case False
    with ex step_loop_shape [of w a "the_compiler a" "[]" "SysExit n"
        "snd (step_through_instructions w a (the_compiler a) [])"]
    show ?thesis
      by (auto simp: run_steps prod_eq_iff)
  qed
next
  fix n assume ex: "fst (run w a) = SysExit n"
  show "snd (run w a) = [] \<and>
         is_potentially_dangerous (compiled_unit (compiled_instructions (the_compiler a))) \<or>
       (\<exists>pre j s. snd (run w a) = pre @ [StepCall j s] \<and>
          is_potentially_dangerous (py_replace ''```'' '''' s))"
  proof (cases "use_compiled (the_compiler a) \<and> compiled_instructions (the_compiler a) \<noteq> []")
    case True
    with ex show ?thesis
      by (simp add: run_replay compiled_unit_def replay_cases split: if_splits exec_result.splits)
  next
    case False
    with ex step_loop_shape [of w a "the_compiler a" "[]" "SysExit n"
        "snd (step_through_instructions w a (the_compiler a) [])"]
    show ?thesis
      by (auto simp: run_steps prod_eq_iff)
  qed
qed

text \<open>The second of three instructions gets an import; the third is never stepped.\<close>

theorem C8_gate_rejection_witness:
  "instructions_queue ((the_compiler (stepping_agent [''a'', ''b'', ''c'']))\<lparr>instructions_queue := [''b'', ''c'']\<rparr>)
     = ''b'' # [''c''] \<and>
   is_potentially_dangerous (py_replace ''```'' ''''
      (llm_step world_importing [StepCall ''a'' ''```env.a()```'', ExecCall ''env.a()'' True] ''b'')) \<and>
   step_through_instructions world_importing (stepping_agent [''a'', ''b'', ''c''])
      ((the_compiler (stepping_agent [''a'', ''b'', ''c'']))\<lparr>instructions_queue := [''b'', ''c'']\<rparr>)
      [StepCall ''a'' ''```env.a()```'', ExecCall ''env.a()'' True]
     = (SysExit 1, [StepCall ''a'' ''```env.a()```'', ExecCall ''env.a()'' True,
                    StepCall ''b'' ''```import os```'']) \<and>
   fst (run world_importing (stepping_agent [''a'', ''b'', ''c''])) = SysExit 1 \<and>
   teardown_count (snd (run world_importing (stepping_agent [''a'', ''b'', ''c'']))) = 0"
proof -
  let ?c = "(the_compiler (stepping_agent [''a'', ''b'', ''c'']))\<lparr>instructions_queue := [''b'', ''c'']\<rparr>"
  let ?tr = "[StepCall ''a'' ''```env.a()```'', ExecCall ''env.a()'' True]"
  have h1: "instructions_queue ?c = ''b'' # [''c'']"
    by code_simp
  have h2: "is_potentially_dangerous (py_replace ''```'' '''' (llm_step world_importing ?tr ''b''))"
    by code_simp
  have h3: "fst (run world_importing (stepping_agent [''a'', ''b'', ''c''])) = SysExit 1"
    by code_simp
  have s: "llm_step world_importing ?tr ''b'' = ''```import os```''"
    by code_simp
  from C8_gate_rejection_exits [of ?c "''b''" "[''c'']" world_importing ?tr
      "stepping_agent [''a'', ''b'', ''c'']"] h1 h2 h3
  show ?thesis
    unfolding s by simp
qed

subsection \<open>C9: the Safety Gate on the replay path\<close>

text \<open>
  C9. The claim: for every cached plan whose concatenation contains an import statement
  or a denylisted substring, \<^verbatim>\<open>run()\<close> ends with exit status 1 before anything of
  the plan is executed.

  The replay path does pass the unit through the same gate before \<^verbatim>\<open>exec\<close>, but the
  gate is the lexical one of C3. As amended: when caching is enabled and the cached plan
  is not empty, and the plan joined by newlines contains \<^verbatim>\<open>"import "\<close>, \<^verbatim>\<open>shutil\<close>,
  \<^verbatim>\<open>requests\<close> or \<^verbatim>\<open>urllib\<close>, before or after the code fences are stripped, then
  \<^verbatim>\<open>run()\<close> ends with exit status 1 and has made no call at all.
\<close>

theorem C9_replay_gate:
  assumes "use_compiled (the_compiler a)"
    and "compiled_instructions (the_compiler a) \<noteq> []"
    and "x \<in> {''import '', ''shutil'', ''requests'', ''urllib''}"
    and "sublist x (py_join ''\<newline>'' (compiled_instructions (the_compiler a))) \<or>
         sublist x (py_replace ''```'' '''' (py_join ''\<newline>'' (compiled_instructions (the_compiler a))))"
  shows "run w a = (SysExit 1, [])"
proof -
  from assms(3) have "CHR 0x60 \<notin> set x" by auto
  with assms(4)
  have "sublist x (py_replace ''```'' '''' (py_join ''\<newline>'' (compiled_instructions (the_compiler a))))"
    by (auto dest: strip_fences_sublist)
  with assms(3) have "is_potentially_dangerous (compiled_unit (compiled_instructions (the_compiler a)))"
    unfolding gate_iff_sublist compiled_unit_def by blast
  with assms(1,2) show ?thesis
    by (simp add: run_replay compiled_unit_def replay_cases)
qed

text \<open>A cached plan in which the name appears only once the code fence is stripped.\<close>

theorem C9_replay_gate_witness:
  "use_compiled (the_compiler (cached_agent [''env.a()'', ''shu```til.rmtree(x)''])) \<and>
   compiled_instructions (the_compiler (cached_agent [''env.a()'', ''shu```til.rmtree(x)''])) \<noteq> [] \<and>
   sublist ''shutil'' (py_replace ''```'' '''' (py_join ''\<newline>''
      (compiled_instructions (the_compiler (cached_agent [''env.a()'', ''shu```til.rmtree(x)'']))))) \<and>
   run world_ok (cached_agent [''env.a()'', ''shu```til.rmtree(x)'']) = (SysExit 1, [])"
proof -
  let ?a = "cached_agent [''env.a()'', ''shu```til.rmtree(x)'']"
  have h1: "use_compiled (the_compiler ?a)" by code_simp
  have h2: "compiled_instructions (the_compiler ?a) \<noteq> []" by code_simp
  have h3: "''shutil'' \<in> {''import '', ''shutil'', ''requests'', ''urllib''}" by simp
  have "str_contains ''shutil'' (py_replace ''```'' '''' (py_join ''\<newline>''
      (compiled_instructions (the_compiler ?a))))"
    by code_simp
  then have h4: "sublist ''shutil'' (py_replace ''```'' '''' (py_join ''\<newline>''
      (compiled_instructions (the_compiler ?a))))"
    by (simp only: str_contains_sublist)
  from C9_replay_gate [OF h1 h2 h3 disjI2 [OF h4], of world_ok] h1 h2 h4 show ?thesis
    by simp
qed

text \<open>
  The claim as stated fails for the cached plan \<^verbatim>\<open>import<TAB>os\<close>: it is an import
  statement, and \<^verbatim>\<open>run()\<close> executes it and returns.
\<close>

theorem C9_replay_import_counterexample:
  "spec_contains_import_statement (py_join ''\<newline>'' [''import'' @ [CHR 0x09] @ ''os'']) \<and>
   use_compiled (the_compiler (cached_agent [''import'' @ [CHR 0x09] @ ''os''])) \<and>
   run world_ok (cached_agent [''import'' @ [CHR 0x09] @ ''os''])
     = (Finished, [ExecCall (''import'' @ [CHR 0x09] @ ''os'') True, QuitCall])"
  by code_simp

subsection \<open>C10: the output file\<close>

text \<open>
  C10. An output file that is given and does not end in \<^verbatim>\<open>.yaml\<close> makes
  \<^verbatim>\<open>__init__\<close> fail with an AssertionError before the Chrome session is opened. So
  whatever file a run of a constructed agent saves the compiled instructions to ends in
  \<^verbatim>\<open>.yaml\<close>.
\<close>

theorem C10_yaml_only:
  "(output_file = Some f \<and> \<not> suffix ''.yaml'' f \<longrightarrow>
      agent_init w instructions h d output_file = (Inl AssertionError, [])) \<and>
   (\<forall>a evs g. agent_init w instructions h d output_file = (Inr a, evs) \<and>
        g \<in> set (saved_files (snd (run w' a))) \<longrightarrow> suffix ''.yaml'' g)"
proof (intro conjI allI impI)
  assume "output_file = Some f \<and> \<not> suffix ''.yaml'' f"
  then show "agent_init w instructions h d output_file = (Inl AssertionError, [])"
    by (simp add: agent_init_def)
next
  fix a evs g
  assume h: "agent_init w instructions h d output_file = (Inr a, evs) \<and>
        g \<in> set (saved_files (snd (run w' a)))"
  then have fl: "instruction_output_file a = output_file"
    and ok: "case output_file of None \<Rightarrow> True | Some f \<Rightarrow> suffix ''.yaml'' f"
    by (auto simp: agent_init_def split: if_splits)
  have "set (saved_files (snd (run w' a))) \<subseteq> set_option (instruction_output_file a)"
  proof (cases "use_compiled (the_compiler a) \<and> compiled_instructions (the_compiler a) \<noteq> []")
    case True
    then show ?thesis
      by (simp add: run_replay replay_cases split: exec_result.splits)
  next
    case False
    with step_loop_shape [of w' a "the_compiler a" "[]"
        "fst (step_through_instructions w' a (the_compiler a) [])"
        "snd (step_through_instructions w' a (the_compiler a) [])"]
    show ?thesis
      by (auto simp: run_steps)
  qed
  with h fl ok show "suffix ''.yaml'' g"
    by (auto split: option.splits)
qed

text \<open>A JSON file is refused; with a YAML file the run saves to it.\<close>

theorem C10_yaml_only_witness:
  "\<not> suffix ''.yaml'' ''plan.json'' \<and>
   agent_init world_ok ''a\<newline>b'' True False (Some ''plan.json'') = (Inl AssertionError, []) \<and>
   agent_init world_ok ''a\<newline>b'' True False (Some ''plan.yaml'')
     = (Inr \<lparr>instruction_output_file = Some ''plan.yaml'', debug = False, headless = True,
             the_compiler = example_new_compiler ''a\<newline>b''\<rparr>, [OpenCall]) \<and>
   saved_files (snd (run world_ok
       \<lparr>instruction_output_file = Some ''plan.yaml'', debug = False, headless = True,
        the_compiler = example_new_compiler ''a\<newline>b''\<rparr>)) = [''plan.yaml''] \<and>
   suffix ''.yaml'' ''plan.yaml''"
proof -
  let ?a = "\<lparr>instruction_output_file = Some ''plan.yaml'', debug = False, headless = True,
             the_compiler = example_new_compiler ''a\<newline>b''\<rparr>"
  have h1: "\<not> suffix ''.yaml'' ''plan.json''"
    by code_simp
  have h2: "agent_init world_ok ''a\<newline>b'' True False (Some ''plan.yaml'') = (Inr ?a, [OpenCall])"
    by code_simp
  have h3: "saved_files (snd (run world_ok ?a)) = [''plan.yaml'']"
    by code_simp
  from C10_yaml_only [of "Some ''plan.json''" "''plan.json''" world_ok "''a\<newline>b''" True False world_ok] h1
  have c1: "agent_init world_ok ''a\<newline>b'' True False (Some ''plan.json'') = (Inl AssertionError, [])"
    by simp
  from C10_yaml_only [of "Some ''plan.yaml''" "''plan.yaml''" world_ok "''a\<newline>b''" True False world_ok] h2 h3
  have c2: "suffix ''.yaml'' ''plan.yaml''"
    by auto
  from h1 h2 h3 c1 c2 show ?thesis
    by simp
qed

section \<open>Further properties of the step loop\<close>

text \<open>
  X1. When an execution raises and the feedback cannot be built from its trace (the two
  kept lines have no \<^verbatim>\<open>"line "\<close>, what follows is not a number, or the number
  points outside the action), the exception raised inside the \<^verbatim>\<open>except\<close> branch
  leaves \<^verbatim>\<open>run()\<close> at once: \<^verbatim>\<open>retry\<close> is not called, the rest of the queue is
  not stepped and the session is not closed.
\<close>

theorem X1_unreadable_trace_aborts:
  assumes "instructions_queue c = i # q"
    and "\<not> is_potentially_dangerous (py_replace ''```'' '''' (llm_step w tr i))"
    and "py_exec w (tr @ [StepCall i (llm_step w tr i)])
           (py_replace ''```'' '''' (llm_step w tr i)) = Raised tb"
    and "retry_feedback (py_replace ''```'' '''' (llm_step w tr i)) tb = Inl e"
  shows "step_through_instructions w a c tr =
           (Propagated e,
            tr @ [StepCall i (llm_step w tr i),
                  ExecCall (py_replace ''```'' '''' (llm_step w tr i)) False])"
  by (simp add: step_loop_accepted [OF assms(1,2)]
      attempt_loop_handler_raises [OF _ assms(3,4)])

text \<open>An action that does not parse: the trace of a SyntaxError has no number before a comma.\<close>

theorem X1_unreadable_trace_witness:
  "py_exec world_syntax_error [StepCall ''a'' ''env.click('']  ''env.click(''
     = Raised example_syntax_traceback \<and>
   retry_feedback ''env.click('' example_syntax_traceback = Inl ValueError \<and>
   run world_syntax_error (stepping_agent [''a'', ''b''])
     = (Propagated ValueError, [StepCall ''a'' ''env.click('', ExecCall ''env.click('' False])"
proof -
  have h1: "instructions_queue (the_compiler (stepping_agent [''a'', ''b''])) = ''a'' # [''b'']"
    by code_simp
  have h2: "\<not> is_potentially_dangerous (py_replace ''```'' '''' (llm_step world_syntax_error [] ''a''))"
    by code_simp
  have h3: "py_exec world_syntax_error ([] @ [StepCall ''a'' (llm_step world_syntax_error [] ''a'')])
           (py_replace ''```'' '''' (llm_step world_syntax_error [] ''a'')) = Raised example_syntax_traceback"
    by code_simp
  have h4: "retry_feedback (py_replace ''```'' '''' (llm_step world_syntax_error [] ''a''))
              example_syntax_traceback = Inl ValueError"
    by code_simp
  have e: "py_exec world_syntax_error [StepCall ''a'' ''env.click('']  ''env.click(''
     = Raised example_syntax_traceback"
    "retry_feedback ''env.click('' example_syntax_traceback = Inl ValueError"
    "run world_syntax_error (stepping_agent [''a'', ''b''])
     = (Propagated ValueError, [StepCall ''a'' ''env.click('', ExecCall ''env.click('' False])"
    by code_simp+
  note X1_unreadable_trace_aborts [OF h1 h2 h3 h4, of "stepping_agent [''a'', ''b'']"]
  with e show ?thesis
    by blast
qed

text \<open>
  X2. The action that \<^verbatim>\<open>retry\<close> returns is executed without passing the Safety
  Gate: when the first action of an instruction raises and the action returned by
  \<^verbatim>\<open>retry\<close> returns, the loop goes on after that execution, whatever the text of
  that action is.
\<close>

theorem X2_retried_action_not_gated:
  assumes "instructions_queue c = i # q"
    and "\<not> is_potentially_dangerous (py_replace ''```'' '''' (llm_step w tr i))"
    and "py_exec w (tr @ [StepCall i (llm_step w tr i)])
           (py_replace ''```'' '''' (llm_step w tr i)) = Raised tb"
    and "retry_feedback (py_replace ''```'' '''' (llm_step w tr i)) tb = Inr fb"
    and "tr1 = tr @ [StepCall i (llm_step w tr i),
                     ExecCall (py_replace ''```'' '''' (llm_step w tr i)) False] @
                    (if debug a then [PdbCall] else [])"
    and "py_exec w (tr1 @ [RetryCall fb (llm_retry w tr1 fb)])
           (py_replace ''```'' '''' (llm_retry w tr1 fb)) = Returned"
  shows "step_through_instructions w a c tr =
           step_through_instructions w a (c\<lparr>instructions_queue := q\<rparr>)
             (tr1 @ [RetryCall fb (llm_retry w tr1 fb),
                     ExecCall (py_replace ''```'' '''' (llm_retry w tr1 fb)) True])"
proof -
  let ?act = "py_replace ''```'' '''' (llm_step w tr i)"
  let ?tr0 = "tr @ [StepCall i (llm_step w tr i)]"
  have t: "?tr0 @ [ExecCall ?act False] @ (if debug a then [PdbCall] else []) = tr1"
    by (simp add: assms(5))
  have "attempt_loop w a (c\<lparr>instructions_queue := q\<rparr>) 0 ?act ?tr0 =
          attempt_loop w a (c\<lparr>instructions_queue := q\<rparr>) (Suc 0)
            (py_replace ''```'' '''' (llm_retry w tr1 fb))
            (tr1 @ [RetryCall fb (llm_retry w tr1 fb)])"
    using attempt_loop_retry [OF _ assms(3,4), of 0 a "c\<lparr>instructions_queue := q\<rparr>"]
    unfolding t by (simp add: t [symmetric])
  also have "\<dots> = (None, (tr1 @ [RetryCall fb (llm_retry w tr1 fb)]) @
                       [ExecCall (py_replace ''```'' '''' (llm_retry w tr1 fb)) True])"
    by (rule attempt_loop_Returned [OF _ assms(6)]) simp
  finally show ?thesis
    by (simp add: step_loop_accepted [OF assms(1,2)])
qed

text \<open>The retry answers with an import, which is executed.\<close>

theorem X2_retried_action_witness:
  "is_potentially_dangerous ''import os'' \<and>
   retry_feedback ''env.a()'' (example_traceback ''1'') = Inr (example_feedback ''env.a()'' ''1'') \<and>
   run world_retry_imports (stepping_agent [''a''])
     = (Finished,
        [StepCall ''a'' ''env.a()'', ExecCall ''env.a()'' False,
         RetryCall (example_feedback ''env.a()'' ''1'') ''```import os```'',
         ExecCall ''import os'' True, SaveCall ''out.yaml'', QuitCall]) \<and>
   step_through_instructions world_retry_imports (stepping_agent [''a''])
       (the_compiler (stepping_agent [''a''])) []
     = step_through_instructions world_retry_imports (stepping_agent [''a''])
         ((the_compiler (stepping_agent [''a'']))\<lparr>instructions_queue := []\<rparr>)
         [StepCall ''a'' ''env.a()'', ExecCall ''env.a()'' False,
          RetryCall (example_feedback ''env.a()'' ''1'') ''```import os```'',
          ExecCall ''import os'' True]"
proof -
  let ?w = world_retry_imports
  let ?a = "stepping_agent [''a'']"
  let ?tr1 = "[StepCall ''a'' ''env.a()'', ExecCall ''env.a()'' False]"
  have h1: "instructions_queue (the_compiler ?a) = ''a'' # []"
    by code_simp
  have h2: "\<not> is_potentially_dangerous (py_replace ''```'' '''' (llm_step ?w [] ''a''))"
    by code_simp
  have h3: "py_exec ?w ([] @ [StepCall ''a'' (llm_step ?w [] ''a'')])
           (py_replace ''```'' '''' (llm_step ?w [] ''a'')) = Raised (example_traceback ''1'')"
    by code_simp
  have h4: "retry_feedback (py_replace ''```'' '''' (llm_step ?w [] ''a'')) (example_traceback ''1'')
              = Inr (example_feedback ''env.a()'' ''1'')"
    by code_simp
  have h5: "?tr1 = [] @ [StepCall ''a'' (llm_step ?w [] ''a''),
                     ExecCall (py_replace ''```'' '''' (llm_step ?w [] ''a'')) False] @
                    (if debug ?a then [PdbCall] else [])"
    by code_simp
  have h6: "py_exec ?w (?tr1 @ [RetryCall (example_feedback ''env.a()'' ''1'')
                                  (llm_retry ?w ?tr1 (example_feedback ''env.a()'' ''1''))])
           (py_replace ''```'' '''' (llm_retry ?w ?tr1 (example_feedback ''env.a()'' ''1''))) = Returned"
    by code_simp
  have r: "llm_retry ?w ?tr1 (example_feedback ''env.a()'' ''1'') = ''```import os```''"
    "py_replace ''```'' '''' ''```import os```'' = ''import os''"
    by code_simp+
  have e: "is_potentially_dangerous ''import os''"
    "retry_feedback ''env.a()'' (example_traceback ''1'') = Inr (example_feedback ''env.a()'' ''1'')"
    "run ?w ?a
     = (Finished,
        [StepCall ''a'' ''env.a()'', ExecCall ''env.a()'' False,
         RetryCall (example_feedback ''env.a()'' ''1'') ''```import os```'',
         ExecCall ''import os'' True, SaveCall ''out.yaml'', QuitCall])"
    by code_simp+
  have "step_through_instructions ?w ?a (the_compiler ?a) []
     = step_through_instructions ?w ?a ((the_compiler ?a)\<lparr>instructions_queue := []\<rparr>)
         [StepCall ''a'' ''env.a()'', ExecCall ''env.a()'' False,
          RetryCall (example_feedback ''env.a()'' ''1'') ''```import os```'',
          ExecCall ''import os'' True]"
    using X2_retried_action_not_gated [OF h1 h2 h3 h4 h5 h6]
    unfolding r by simp
  with e show ?thesis
    by blast
qed

end
